theory Spec2Isabelle
  imports Main "HOL-Library.Word"
begin

unbundle bit_operations_syntax

section \<open>The kauth listener of PrjFSKext (KauthHandler.cpp)\<close>

text \<open>
  A shallow embedding of \<^verbatim>\<open>src/ProjFS.Mac/PrjFSKext/PrjFSKext/KauthHandler.cpp\<close>.
  The classification that \<^verbatim>\<open>HandleVnodeOperation\<close> performs before it blocks is a pure
  function of the intercepted event. The blocking round trip
  (\<^verbatim>\<open>TrySendRequestAndWaitForResponse\<close>), the delivery of responses
  (\<^verbatim>\<open>KauthHandler_HandleKernelMessageResponse\<close>) and the shutdown
  (\<^verbatim>\<open>AbortAllOutstandingEvents\<close>) share the list of outstanding messages and the
  shutdown flag; they are modelled as atomic steps on one kernel state, interleaved by a
  schedule. A step is one critical section of the mutex, or one access to a volatile or
  atomic variable outside of it.
\<close>

subsection \<open>Constants of the operating system\<close>

text \<open>
  \<^verbatim>\<open>kauth_action_t\<close> is a 32-bit \<^verbatim>\<open>int\<close>; the action bits, the results of a listener and the
  error numbers are the macros of \<^verbatim>\<open>sys/kauth.h\<close> and \<^verbatim>\<open>sys/errno.h\<close> of macOS.
  \<^verbatim>\<open>KAUTH_VNODE_LIST_DIRECTORY\<close> is the same bit as \<^verbatim>\<open>KAUTH_VNODE_READ_DATA\<close> and
  \<^verbatim>\<open>KAUTH_VNODE_SEARCH\<close> the same bit as \<^verbatim>\<open>KAUTH_VNODE_EXECUTE\<close>.
\<close>

type_synonym kauth_action_t = "32 word"

definition KAUTH_VNODE_READ_DATA :: kauth_action_t where
  "KAUTH_VNODE_READ_DATA = push_bit 1 1"

definition KAUTH_VNODE_LIST_DIRECTORY :: kauth_action_t where
  "KAUTH_VNODE_LIST_DIRECTORY = KAUTH_VNODE_READ_DATA"

definition KAUTH_VNODE_WRITE_DATA :: kauth_action_t where
  "KAUTH_VNODE_WRITE_DATA = push_bit 2 1"

definition KAUTH_VNODE_EXECUTE :: kauth_action_t where
  "KAUTH_VNODE_EXECUTE = push_bit 3 1"

definition KAUTH_VNODE_SEARCH :: kauth_action_t where
  "KAUTH_VNODE_SEARCH = KAUTH_VNODE_EXECUTE"

definition KAUTH_VNODE_DELETE :: kauth_action_t where
  "KAUTH_VNODE_DELETE = push_bit 4 1"

definition KAUTH_VNODE_APPEND_DATA :: kauth_action_t where
  "KAUTH_VNODE_APPEND_DATA = push_bit 5 1"

definition KAUTH_VNODE_DELETE_CHILD :: kauth_action_t where
  "KAUTH_VNODE_DELETE_CHILD = push_bit 6 1"

definition KAUTH_VNODE_READ_ATTRIBUTES :: kauth_action_t where
  "KAUTH_VNODE_READ_ATTRIBUTES = push_bit 7 1"

definition KAUTH_VNODE_WRITE_ATTRIBUTES :: kauth_action_t where
  "KAUTH_VNODE_WRITE_ATTRIBUTES = push_bit 8 1"

definition KAUTH_VNODE_READ_EXTATTRIBUTES :: kauth_action_t where
  "KAUTH_VNODE_READ_EXTATTRIBUTES = push_bit 9 1"

definition KAUTH_VNODE_WRITE_EXTATTRIBUTES :: kauth_action_t where
  "KAUTH_VNODE_WRITE_EXTATTRIBUTES = push_bit 10 1"

definition KAUTH_VNODE_READ_SECURITY :: kauth_action_t where
  "KAUTH_VNODE_READ_SECURITY = push_bit 11 1"

definition KAUTH_VNODE_WRITE_SECURITY :: kauth_action_t where
  "KAUTH_VNODE_WRITE_SECURITY = push_bit 12 1"

definition KAUTH_VNODE_LINKTARGET :: kauth_action_t where
  "KAUTH_VNODE_LINKTARGET = push_bit 25 1"

definition KAUTH_VNODE_ACCESS :: kauth_action_t where
  "KAUTH_VNODE_ACCESS = push_bit 31 1"

definition KAUTH_RESULT_ALLOW :: int where
  "KAUTH_RESULT_ALLOW = 1"

definition KAUTH_RESULT_DENY :: int where
  "KAUTH_RESULT_DENY = 2"

definition KAUTH_RESULT_DEFER :: int where
  "KAUTH_RESULT_DEFER = 3"

definition EACCES :: int where
  "EACCES = 13"

definition EAGAIN :: int where
  "EAGAIN = 35"

text \<open>
  The node types of \<^verbatim>\<open>enum vtype\<close> (\<^verbatim>\<open>sys/vnode.h\<close>). \<open>VUNKNOWN n\<close> stands for a value
  \<open>n\<close> that is none of the enumerators: the \<^verbatim>\<open>default\<close> branch of the switch in
  \<^verbatim>\<open>ShouldIgnoreVnodeType\<close>.
\<close>

datatype vtype =
  VNON | VREG | VDIR | VBLK | VCHR | VLNK | VSOCK | VFIFO | VBAD | VSTR | VCPLX
  | VUNKNOWN int

subsection \<open>Declarations of the kext that the handler uses\<close>

text \<open>
  Modelled from the spec: \<^verbatim>\<open>PrjFSCommon.h\<close> is not among the sources. The spec names two
  node flags, \<open>InVirtualizationRoot\<close> and \<open>Empty\<close>, read as bits of the 32-bit
  \<^verbatim>\<open>va_flags\<close>; they are taken as two different single bits.
\<close>

definition FileFlags_IsInVirtualizationRoot :: "32 word" where
  "FileFlags_IsInVirtualizationRoot = 0x8"

definition FileFlags_IsEmpty :: "32 word" where
  "FileFlags_IsEmpty = 0x10"

text \<open>
  Modelled from the spec: \<^verbatim>\<open>Message.h\<close> is not among the sources. The handler names four
  message types; \<open>MessageType_Other n\<close> is any other value of the enumeration. A request
  carries its id, its kind, the caller's process id and name, and the path relative to the
  root; \<^verbatim>\<open>Message_Init\<close> fills the header and the message from its arguments.
\<close>

datatype MessageType =
  MessageType_KtoU_EnumerateDirectory
  | MessageType_KtoU_HydrateFile
  | MessageType_Response_Success
  | MessageType_Response_Fail
  | MessageType_Other nat

record MessageHeader =
  messageId :: "64 word"
  messageType :: MessageType
  hdr_pid :: int
  hdr_procname :: string

record Message =
  messageHeader :: MessageHeader
  msg_path :: string

definition Message_Init :: "64 word \<Rightarrow> MessageType \<Rightarrow> int \<Rightarrow> string \<Rightarrow> string \<Rightarrow> Message" where
  "Message_Init mid mt p pname rel =
     \<lparr>messageHeader = \<lparr>messageId = mid, messageType = mt, hdr_pid = p, hdr_procname = pname\<rparr>,
      msg_path = rel\<rparr>"

text \<open>
  Modelled from the spec: \<^verbatim>\<open>VirtualizationRoots.hpp\<close> is not among the sources. The handler
  reads four fields of a root: its index (an \<^verbatim>\<open>int16_t\<close>), its path, the process id of its
  provider, and the provider's user client, a pointer that is null while the root is offline.
\<close>

record VirtualizationRoot =
  index :: int
  path :: string
  providerPid :: int
  providerUserClient :: "nat option"

subsection \<open>The intercepted event\<close>

text \<open>
  What the kernel answers about the node and the caller of one intercepted operation:
  \<^verbatim>\<open>VirtualizationRoot_VnodeIsOnAllowedFilesystem\<close>, \<^verbatim>\<open>vnode_vtype\<close>, the \<^verbatim>\<open>va_flags\<close> that
  \<^verbatim>\<open>ReadVNodeFileFlags\<close> returns, \<^verbatim>\<open>vn_getpath\<close> (\<open>None\<close> when it fails) and
  \<^verbatim>\<open>VirtualizationRoots_FindForVnode\<close> (\<open>None\<close> for \<^verbatim>\<open>nullptr\<close>).
\<close>

record vnode =
  VnodeIsOnAllowedFilesystem :: bool
  vnode_vtype :: vtype
  va_flags :: "32 word"
  vn_getpath :: "string option"
  FindForVnode :: "VirtualizationRoot option"

text \<open>
  The listener's arguments: the action, the caller (\<^verbatim>\<open>proc_pid\<close> and \<^verbatim>\<open>proc_name\<close> of
  \<^verbatim>\<open>arg0\<close>) and the node (\<^verbatim>\<open>arg1\<close>). \<open>sendResult\<close> is what
  \<^verbatim>\<open>ActiveProvider_SendMessage\<close> returns for this event when it is called.
\<close>

record kauth_event =
  action :: kauth_action_t
  proc_pid :: int
  proc_name :: string
  currentVnode :: vnode
  sendResult :: int

datatype log_entry = KextLog_Info string | KextLog_FileNote string | KextLog_Error string

subsection \<open>The helpers\<close>

definition FileFlagsBitIsSet :: "32 word \<Rightarrow> 32 word \<Rightarrow> bool" where
  "FileFlagsBitIsSet fileFlags b = (0 \<noteq> (fileFlags AND b))"

definition ActionBitIsSet :: "kauth_action_t \<Rightarrow> kauth_action_t \<Rightarrow> bool" where
  "ActionBitIsSet act msk = ((act AND msk) \<noteq> 0)"

definition ActionBitsNotSet :: "kauth_action_t \<Rightarrow> kauth_action_t \<Rightarrow> bool" where
  "ActionBitsNotSet act msk = (0 = (act AND msk))"

definition IsFileSystemCrawler :: "string \<Rightarrow> bool" where
  "IsFileSystemCrawler pname =
     (if pname = ''mds'' \<or> pname = ''mdworker'' \<or> pname = ''mds_stores''
         \<or> pname = ''fseventsd'' \<or> pname = ''Spotlight''
      then True else False)"

text \<open>
  \<^verbatim>\<open>GetRelativePath\<close> skips the root's length and then one \<^verbatim>\<open>'/'\<close>. The source asserts
  that the path is at least as long as the root; a shorter path is \<open>None\<close> here.
\<close>

definition GetRelativePath :: "string \<Rightarrow> string \<Rightarrow> string option" where
  "GetRelativePath p r =
     (if length p < length r then None
      else let relativePath = drop (length r) p in
        (case relativePath of
           c # rest \<Rightarrow> if c = CHR ''/'' then Some rest else Some relativePath
         | [] \<Rightarrow> Some relativePath))"

text \<open>
  \<^verbatim>\<open>ShouldIgnoreVnodeType\<close> returns its answer and what it logs. For \<^verbatim>\<open>VSTR\<close>,
  \<^verbatim>\<open>VCPLX\<close> and the default branch it logs and returns \<^verbatim>\<open>false\<close>.
\<close>

fun ShouldIgnoreVnodeType :: "vtype \<Rightarrow> bool \<times> log_entry list" where
  "ShouldIgnoreVnodeType VNON = (True, [])"
| "ShouldIgnoreVnodeType VBLK = (True, [])"
| "ShouldIgnoreVnodeType VCHR = (True, [])"
| "ShouldIgnoreVnodeType VSOCK = (True, [])"
| "ShouldIgnoreVnodeType VFIFO = (True, [])"
| "ShouldIgnoreVnodeType VBAD = (True, [])"
| "ShouldIgnoreVnodeType VREG = (False, [])"
| "ShouldIgnoreVnodeType VDIR = (False, [])"
| "ShouldIgnoreVnodeType VLNK = (False, [])"
| "ShouldIgnoreVnodeType VSTR =
     (False, [KextLog_Info ''vnode with type %s encountered, path %s''])"
| "ShouldIgnoreVnodeType VCPLX =
     (False, [KextLog_Info ''vnode with type %s encountered, path %s''])"
| "ShouldIgnoreVnodeType (VUNKNOWN n) =
     (False, [KextLog_Info ''vnode with unknown type %d encountered''])"

subsection \<open>The classification of HandleVnodeOperation\<close>

text \<open>
  \<^verbatim>\<open>HandleVnodeOperation\<close> either reaches its label \<^verbatim>\<open>CleanupAndReturn\<close> with a result
  and without having touched the list of outstanding messages (\<open>Verdict\<close>), or it calls
  \<^verbatim>\<open>TrySendRequestAndWaitForResponse\<close> with a root and a message type (\<open>RoundTrip\<close>).
\<close>

datatype gate = Verdict int | RoundTrip VirtualizationRoot MessageType

text \<open>Lines 223 to 273: the root has no provider (\<^verbatim>\<open>nullptr == root->providerUserClient\<close>).\<close>

definition HandleVnodeOperation_offline ::
  "kauth_event \<Rightarrow> VirtualizationRoot \<Rightarrow> log_entry list \<times> gate" where
  "HandleVnodeOperation_offline ev root =
     (let act = action ev;
          rootIndex = index root;
          vnodeIsDir = (vnode_vtype (currentVnode ev) = VDIR);
          currentVnodeFileFlags = va_flags (currentVnode ev)
      in
      if rootIndex \<ge> 0 then
        if ActionBitsNotSet act KAUTH_VNODE_ACCESS
           \<and> ActionBitIsSet act
                (KAUTH_VNODE_WRITE_ATTRIBUTES OR KAUTH_VNODE_WRITE_EXTATTRIBUTES
                 OR KAUTH_VNODE_WRITE_DATA OR KAUTH_VNODE_APPEND_DATA
                 OR KAUTH_VNODE_WRITE_SECURITY OR KAUTH_VNODE_LINKTARGET)
        then ([KextLog_FileNote
                 ''HandleVnodeOperation - write action 0x%x by process %u (%s) DENIED  on %s with offline provider.''],
              Verdict KAUTH_RESULT_DENY)
        else if FileFlagsBitIsSet currentVnodeFileFlags FileFlags_IsEmpty then
          if ActionBitIsSet act
               (KAUTH_VNODE_ACCESS OR KAUTH_VNODE_DELETE_CHILD OR KAUTH_VNODE_DELETE
                OR KAUTH_VNODE_READ_EXTATTRIBUTES)
          then ([], Verdict KAUTH_RESULT_DEFER)
          else if vnodeIsDir
                \<and> ActionBitIsSet act
                     (KAUTH_VNODE_READ_ATTRIBUTES OR KAUTH_VNODE_READ_SECURITY
                      OR KAUTH_VNODE_LIST_DIRECTORY OR KAUTH_VNODE_SEARCH)
          then ([], Verdict KAUTH_RESULT_DEFER)
          else ([KextLog_FileNote
                   ''HandleVnodeOperation - action 0x%x by process %u (%s) DENIED on empty %s with offline provider.''],
                Verdict KAUTH_RESULT_DENY)
        else ([], Verdict KAUTH_RESULT_DEFER)
      else ([], Verdict KAUTH_RESULT_DEFER))"

text \<open>
  Lines 275 to 335: the root has a provider. \<^verbatim>\<open>kauthResult\<close> still holds its initial
  \<^verbatim>\<open>KAUTH_RESULT_DEFER\<close> where no round trip is made.
\<close>

definition HandleVnodeOperation_online ::
  "kauth_event \<Rightarrow> VirtualizationRoot \<Rightarrow> log_entry list \<times> gate" where
  "HandleVnodeOperation_online ev root =
     (let act = action ev;
          p = proc_pid ev;
          vnodeType = vnode_vtype (currentVnode ev);
          currentVnodeFileFlags = va_flags (currentVnode ev)
      in
      if p = providerPid root then ([], Verdict KAUTH_RESULT_DEFER)
      else if VDIR = vnodeType then
        if ActionBitIsSet act
             (KAUTH_VNODE_LIST_DIRECTORY OR KAUTH_VNODE_SEARCH OR KAUTH_VNODE_READ_SECURITY
              OR KAUTH_VNODE_READ_ATTRIBUTES OR KAUTH_VNODE_READ_EXTATTRIBUTES)
           \<and> FileFlagsBitIsSet currentVnodeFileFlags FileFlags_IsEmpty
        then ([], RoundTrip root MessageType_KtoU_EnumerateDirectory)
        else ([], Verdict KAUTH_RESULT_DEFER)
      else
        if ActionBitIsSet act
             (KAUTH_VNODE_READ_ATTRIBUTES OR KAUTH_VNODE_WRITE_ATTRIBUTES
              OR KAUTH_VNODE_READ_EXTATTRIBUTES OR KAUTH_VNODE_WRITE_EXTATTRIBUTES
              OR KAUTH_VNODE_READ_DATA OR KAUTH_VNODE_WRITE_DATA OR KAUTH_VNODE_EXECUTE)
           \<and> FileFlagsBitIsSet currentVnodeFileFlags FileFlags_IsEmpty
        then ([], RoundTrip root MessageType_KtoU_HydrateFile)
        else ([], Verdict KAUTH_RESULT_DEFER))"

text \<open>Lines 155 to 335, up to the first \<^verbatim>\<open>goto CleanupAndReturn\<close> or round trip.\<close>

definition HandleVnodeOperation_gate :: "kauth_event \<Rightarrow> log_entry list \<times> gate" where
  "HandleVnodeOperation_gate ev =
     (if \<not> VnodeIsOnAllowedFilesystem (currentVnode ev) then ([], Verdict KAUTH_RESULT_DEFER)
      else
        let vnodeType = vnode_vtype (currentVnode ev);
            (ignore, logged) = ShouldIgnoreVnodeType vnodeType
        in
        if ignore then (logged, Verdict KAUTH_RESULT_DEFER)
        else
          let currentVnodeFileFlags = va_flags (currentVnode ev) in
          if \<not> FileFlagsBitIsSet currentVnodeFileFlags FileFlags_IsInVirtualizationRoot
          then (logged, Verdict KAUTH_RESULT_DEFER)
          else
            let procname = proc_name ev in
            if FileFlagsBitIsSet currentVnodeFileFlags FileFlags_IsEmpty
               \<and> IsFileSystemCrawler procname
            then (logged, Verdict KAUTH_RESULT_DENY)
            else
              (case FindForVnode (currentVnode ev) of
                 None \<Rightarrow>
                   (logged @ [KextLog_FileNote
                                ''No virtualization root found for file with set flag.''],
                    Verdict KAUTH_RESULT_DEFER)
               | Some root \<Rightarrow>
                   (case providerUserClient root of
                      None \<Rightarrow>
                        (let (l, g) = HandleVnodeOperation_offline ev root in (logged @ l, g))
                    | Some client \<Rightarrow>
                        (let (l, g) = HandleVnodeOperation_online ev root in (logged @ l, g)))))"

subsection \<open>The shared state and the threads\<close>

text \<open>
  An \<^verbatim>\<open>OutstandingMessage\<close> lives on the stack of the thread that runs
  \<^verbatim>\<open>TrySendRequestAndWaitForResponse\<close>; the list links it by address. A thread runs one
  call of \<^verbatim>\<open>HandleVnodeOperation\<close>, so the thread's number stands for the address of its
  record, \<open>message k t\<close> is the record's memory, and \<open>s_outstandingMessages\<close> is the list of
  the linked records, head first.
\<close>

type_synonym tid = nat

record OutstandingMessage =
  request :: MessageHeader
  response :: MessageType
  receivedResponse :: bool

text \<open>
  The places where a thread can be between two atomic steps. \<open>HVO\<close> is
  \<^verbatim>\<open>HandleVnodeOperation\<close>, \<open>TSR\<close> is \<^verbatim>\<open>TrySendRequestAndWaitForResponse\<close>. A thread
  stops at \<open>Panic\<close> when an assertion fails, and at \<open>Undefined_LIST_REMOVE\<close> when it
  runs \<^verbatim>\<open>LIST_REMOVE\<close> on a record that is not linked: what the code does from there on is
  not defined.
\<close>

datatype pc =
  HVO_Entry
  | TSR_Entry
  | TSR_CheckAndInsert
  | TSR_SendMessage
  | TSR_While_receivedResponse
  | TSR_While_isShuttingDown
  | TSR_Sleep
  | TSR_If_isShuttingDown
  | TSR_If_response
  | TSR_CleanupAndReturn
  | HVO_CleanupAndReturn
  | Returned
  | Panic
  | Undefined_LIST_REMOVE

text \<open>
  The locals of a thread: the event it handles, \<^verbatim>\<open>kauthResult\<close>, the caller's error
  variable that \<^verbatim>\<open>kauthError\<close> points to, and the arguments and locals of
  \<^verbatim>\<open>TrySendRequestAndWaitForResponse\<close>.
\<close>

record thread =
  pc :: pc
  event :: kauth_event
  kauthResult :: int
  kauthError :: int
  root :: VirtualizationRoot
  msgType :: MessageType
  messageSpec :: Message
  isShuttingDown :: bool
  result :: bool

datatype abort_pc = Abort_Entry | Abort_Sleep | Abort_While | Abort_Returned

text \<open>
  The statics of the file, the memory of the stack records, the threads, and what the
  steps did to the outside: the channels passed to \<^verbatim>\<open>wakeup\<close>, the messages handed to
  \<^verbatim>\<open>ActiveProvider_SendMessage\<close>, and the log. \<open>unlinked_removes\<close> lists the threads
  that ran \<^verbatim>\<open>LIST_REMOVE\<close> on a record that was not linked, and stopped there.
\<close>

record kernel =
  s_outstandingMessages :: "tid list"
  s_nextMessageId :: "32 word"
  s_numActiveKauthEvents :: int
  s_isShuttingDown :: bool
  message :: "tid \<Rightarrow> OutstandingMessage"
  threads :: "tid \<Rightarrow> thread"
  wakeups :: "tid list"
  sent :: "(int \<times> Message) list"
  kextlog :: "log_entry list"
  unlinked_removes :: "tid list"
  teardown :: abort_pc

definition set_thread :: "tid \<Rightarrow> thread \<Rightarrow> kernel \<Rightarrow> kernel" where
  "set_thread t th k = k\<lparr>threads := (threads k)(t := th)\<rparr>"

subsection \<open>HandleVnodeOperation, step by step\<close>

text \<open>
  Line 153 to the first \<^verbatim>\<open>goto CleanupAndReturn\<close> or to the call of the round trip: the
  counter of active events is incremented, \<^verbatim>\<open>kauthResult\<close> starts as
  \<^verbatim>\<open>KAUTH_RESULT_DEFER\<close>, and the event is classified.
\<close>

definition HandleVnodeOperation_Entry :: "tid \<Rightarrow> kernel \<Rightarrow> kernel" where
  "HandleVnodeOperation_Entry t k =
     (let th = threads k t;
          (logged, g) = HandleVnodeOperation_gate (event th);
          k' = k\<lparr>s_numActiveKauthEvents := s_numActiveKauthEvents k + 1,
                 kextlog := kextlog k @ logged\<rparr>
      in case g of
           Verdict r \<Rightarrow> set_thread t (th\<lparr>kauthResult := r, pc := HVO_CleanupAndReturn\<rparr>) k'
         | RoundTrip rt mt \<Rightarrow>
             set_thread t
               (th\<lparr>kauthResult := KAUTH_RESULT_DEFER, root := rt, msgType := mt, pc := TSR_Entry\<rparr>)
               k')"

text \<open>Lines 337 to 339: the counter is decremented and \<^verbatim>\<open>kauthResult\<close> is returned.\<close>

definition HandleVnodeOperation_CleanupAndReturn :: "tid \<Rightarrow> kernel \<Rightarrow> kernel" where
  "HandleVnodeOperation_CleanupAndReturn t k =
     set_thread t ((threads k t)\<lparr>pc := Returned\<rparr>)
       (k\<lparr>s_numActiveKauthEvents := s_numActiveKauthEvents k - 1\<rparr>)"

subsection \<open>TrySendRequestAndWaitForResponse, step by step\<close>

text \<open>
  Lines 383 to 402. \<^verbatim>\<open>result\<close> and \<^verbatim>\<open>message.receivedResponse\<close> start as \<^verbatim>\<open>false\<close>; the
  rest of the record keeps what the stack held. When \<^verbatim>\<open>vn_getpath\<close> fails the function
  returns \<^verbatim>\<open>false\<close> with \<^verbatim>\<open>KAUTH_RESULT_DENY\<close> at once, and \<^verbatim>\<open>HandleVnodeOperation\<close> goes
  to its cleanup.
  Otherwise \<^verbatim>\<open>OSIncrementAtomic\<close> returns the old value of the 32-bit counter, which
  becomes the 64-bit id of the request. A path shorter than the root fails the assertion
  of \<^verbatim>\<open>GetRelativePath\<close>.
\<close>

definition TrySendRequestAndWaitForResponse_Entry :: "tid \<Rightarrow> kernel \<Rightarrow> kernel" where
  "TrySendRequestAndWaitForResponse_Entry t k =
     (let th = (threads k t)\<lparr>result := False\<rparr>;
          ev = event th;
          m = (message k t)\<lparr>receivedResponse := False\<rparr>
      in
      case vn_getpath (currentVnode ev) of
        None \<Rightarrow>
          set_thread t (th\<lparr>kauthResult := KAUTH_RESULT_DENY, pc := HVO_CleanupAndReturn\<rparr>)
            (k\<lparr>message := (message k)(t := m),
               kextlog := kextlog k @ [KextLog_Error ''Unable to resolve a vnode to its path'']\<rparr>)
      | Some vnodePath \<Rightarrow>
          (case GetRelativePath vnodePath (path (root th)) of
             None \<Rightarrow> set_thread t (th\<lparr>pc := Panic\<rparr>) (k\<lparr>message := (message k)(t := m)\<rparr>)
           | Some relativePath \<Rightarrow>
               (let nextMessageId = s_nextMessageId k;
                    spec = Message_Init (scast nextMessageId) (msgType th) (proc_pid ev)
                             (proc_name ev) relativePath
                in set_thread t (th\<lparr>messageSpec := spec, pc := TSR_CheckAndInsert\<rparr>)
                     (k\<lparr>s_nextMessageId := s_nextMessageId k + 1,
                        message := (message k)(t := m\<lparr>request := messageHeader spec\<rparr>)\<rparr>))))"

text \<open>
  Lines 404 to 414, one critical section of the mutex: the shutdown flag is read once and
  the record is inserted at the head of the list unless the flag is set.
\<close>

definition TrySendRequestAndWaitForResponse_CheckAndInsert :: "tid \<Rightarrow> kernel \<Rightarrow> kernel" where
  "TrySendRequestAndWaitForResponse_CheckAndInsert t k =
     (let th = (threads k t)\<lparr>isShuttingDown := s_isShuttingDown k, pc := TSR_SendMessage\<rparr> in
      if \<not> isShuttingDown th
      then set_thread t th (k\<lparr>s_outstandingMessages := t # s_outstandingMessages k\<rparr>)
      else set_thread t th k)"

text \<open>
  Lines 416 to 422: the message is sent unless shutdown was seen; when the send fails the
  result is \<^verbatim>\<open>KAUTH_RESULT_DEFER\<close> and the function goes to its cleanup.
\<close>

definition TrySendRequestAndWaitForResponse_SendMessage :: "tid \<Rightarrow> kernel \<Rightarrow> kernel" where
  "TrySendRequestAndWaitForResponse_SendMessage t k =
     (let th = threads k t in
      if \<not> isShuttingDown th
      then
        (let k' = k\<lparr>sent := sent k @ [(index (root th), messageSpec th)]\<rparr> in
         if 0 \<noteq> sendResult (event th)
         then set_thread t (th\<lparr>kauthResult := KAUTH_RESULT_DEFER, pc := TSR_CleanupAndReturn\<rparr>) k'
         else set_thread t (th\<lparr>pc := TSR_While_receivedResponse\<rparr>) k')
      else set_thread t (th\<lparr>pc := TSR_While_receivedResponse\<rparr>) k)"

text \<open>
  Lines 424 to 428: the loop reads \<^verbatim>\<open>message.receivedResponse\<close>, then the volatile
  \<^verbatim>\<open>s_isShuttingDown\<close>, and sleeps when both are false. \<^verbatim>\<open>Sleep\<close> returns when the
  thread is woken or after five seconds; the schedule decides when.
\<close>

definition TrySendRequestAndWaitForResponse_While_receivedResponse :: "tid \<Rightarrow> kernel \<Rightarrow> kernel" where
  "TrySendRequestAndWaitForResponse_While_receivedResponse t k =
     (if \<not> receivedResponse (message k t)
      then set_thread t ((threads k t)\<lparr>pc := TSR_While_isShuttingDown\<rparr>) k
      else set_thread t ((threads k t)\<lparr>pc := TSR_If_isShuttingDown\<rparr>) k)"

definition TrySendRequestAndWaitForResponse_While_isShuttingDown :: "tid \<Rightarrow> kernel \<Rightarrow> kernel" where
  "TrySendRequestAndWaitForResponse_While_isShuttingDown t k =
     (if \<not> s_isShuttingDown k
      then set_thread t ((threads k t)\<lparr>pc := TSR_Sleep\<rparr>) k
      else set_thread t ((threads k t)\<lparr>pc := TSR_If_isShuttingDown\<rparr>) k)"

definition TrySendRequestAndWaitForResponse_Sleep :: "tid \<Rightarrow> kernel \<Rightarrow> kernel" where
  "TrySendRequestAndWaitForResponse_Sleep t k =
     set_thread t ((threads k t)\<lparr>pc := TSR_While_receivedResponse\<rparr>) k"

text \<open>Lines 430 to 434: the shutdown flag is read again.\<close>

definition TrySendRequestAndWaitForResponse_If_isShuttingDown :: "tid \<Rightarrow> kernel \<Rightarrow> kernel" where
  "TrySendRequestAndWaitForResponse_If_isShuttingDown t k =
     (if s_isShuttingDown k
      then set_thread t
             ((threads k t)\<lparr>kauthResult := KAUTH_RESULT_DENY, pc := TSR_CleanupAndReturn\<rparr>) k
      else set_thread t ((threads k t)\<lparr>pc := TSR_If_response\<rparr>) k)"

text \<open>Lines 436 to 448: the response stored in the record decides.\<close>

definition TrySendRequestAndWaitForResponse_If_response :: "tid \<Rightarrow> kernel \<Rightarrow> kernel" where
  "TrySendRequestAndWaitForResponse_If_response t k =
     (if MessageType_Response_Success = response (message k t)
      then set_thread t
             ((threads k t)\<lparr>kauthResult := KAUTH_RESULT_DEFER, result := True,
                             pc := TSR_CleanupAndReturn\<rparr>) k
      else set_thread t
             ((threads k t)\<lparr>kauthError := EAGAIN, kauthResult := KAUTH_RESULT_DENY,
                             pc := TSR_CleanupAndReturn\<rparr>) k)"

text \<open>
  \<^verbatim>\<open>LIST_REMOVE\<close> unlinks an entry through the pointers that \<^verbatim>\<open>LIST_INSERT_HEAD\<close> wrote
  into it. The entry of a record that was never inserted holds what the stack held: the
  macro reads these pointers and writes through them, which is undefined (\<open>None\<close>).
\<close>

definition LIST_REMOVE :: "tid \<Rightarrow> tid list \<Rightarrow> tid list option" where
  "LIST_REMOVE elm head = (if elm \<in> set head then Some (remove1 elm head) else None)"

text \<open>
  Lines 450 to 457, one critical section: the record is unlinked and the function returns;
  \<^verbatim>\<open>HandleVnodeOperation\<close> goes on to its own cleanup whatever the result. Where the
  removal is undefined the thread stops and is noted in \<open>unlinked_removes\<close>; the model
  leaves the list as it was, and says nothing of what such a removal does to it.
\<close>

definition TrySendRequestAndWaitForResponse_CleanupAndReturn :: "tid \<Rightarrow> kernel \<Rightarrow> kernel" where
  "TrySendRequestAndWaitForResponse_CleanupAndReturn t k =
     (case LIST_REMOVE t (s_outstandingMessages k) of
        Some l \<Rightarrow>
          set_thread t ((threads k t)\<lparr>pc := HVO_CleanupAndReturn\<rparr>) (k\<lparr>s_outstandingMessages := l\<rparr>)
      | None \<Rightarrow>
          set_thread t ((threads k t)\<lparr>pc := Undefined_LIST_REMOVE\<rparr>)
            (k\<lparr>unlinked_removes := unlinked_removes k @ [t]\<rparr>))"

text \<open>One atomic step of thread \<open>t\<close>.\<close>

definition thread_step :: "tid \<Rightarrow> kernel \<Rightarrow> kernel" where
  "thread_step t k =
     (case pc (threads k t) of
        HVO_Entry \<Rightarrow> HandleVnodeOperation_Entry t k
      | TSR_Entry \<Rightarrow> TrySendRequestAndWaitForResponse_Entry t k
      | TSR_CheckAndInsert \<Rightarrow> TrySendRequestAndWaitForResponse_CheckAndInsert t k
      | TSR_SendMessage \<Rightarrow> TrySendRequestAndWaitForResponse_SendMessage t k
      | TSR_While_receivedResponse \<Rightarrow> TrySendRequestAndWaitForResponse_While_receivedResponse t k
      | TSR_While_isShuttingDown \<Rightarrow> TrySendRequestAndWaitForResponse_While_isShuttingDown t k
      | TSR_Sleep \<Rightarrow> TrySendRequestAndWaitForResponse_Sleep t k
      | TSR_If_isShuttingDown \<Rightarrow> TrySendRequestAndWaitForResponse_If_isShuttingDown t k
      | TSR_If_response \<Rightarrow> TrySendRequestAndWaitForResponse_If_response t k
      | TSR_CleanupAndReturn \<Rightarrow> TrySendRequestAndWaitForResponse_CleanupAndReturn t k
      | HVO_CleanupAndReturn \<Rightarrow> HandleVnodeOperation_CleanupAndReturn t k
      | Returned \<Rightarrow> k
      | Panic \<Rightarrow> k
      | Undefined_LIST_REMOVE \<Rightarrow> k)"

subsection \<open>Responses and shutdown\<close>

text \<open>
  \<^verbatim>\<open>KauthHandler_HandleKernelMessageResponse\<close>: for a success or a failure, the first
  record of the list with the message's id gets the response and its thread is woken, in
  one critical section. Any other response type leaves the switch at once.
\<close>

definition KauthHandler_HandleKernelMessageResponse ::
  "64 word \<Rightarrow> MessageType \<Rightarrow> kernel \<Rightarrow> kernel" where
  "KauthHandler_HandleKernelMessageResponse mid responseType k =
     (if responseType = MessageType_Response_Success \<or> responseType = MessageType_Response_Fail
      then
        (case find (\<lambda>a. messageId (request (message k a)) = mid) (s_outstandingMessages k) of
           None \<Rightarrow> k
         | Some a \<Rightarrow>
             k\<lparr>message :=
                 (message k)(a := (message k a)\<lparr>response := responseType, receivedResponse := True\<rparr>),
               wakeups := wakeups k @ [a]\<rparr>)
      else k)"

text \<open>
  \<^verbatim>\<open>AbortAllOutstandingEvents\<close>: in one critical section the flag is set and every linked
  record's thread is woken; then the caller sleeps at least once and until the counter of
  active events is not positive.
\<close>

definition AbortAllOutstandingEvents :: "kernel \<Rightarrow> kernel" where
  "AbortAllOutstandingEvents k =
     (case teardown k of
        Abort_Entry \<Rightarrow>
          k\<lparr>s_isShuttingDown := True,
            wakeups := wakeups k @ s_outstandingMessages k,
            teardown := Abort_Sleep\<rparr>
      | Abort_Sleep \<Rightarrow> k\<lparr>teardown := Abort_While\<rparr>
      | Abort_While \<Rightarrow>
          if s_numActiveKauthEvents k > 0 then k\<lparr>teardown := Abort_Sleep\<rparr>
          else k\<lparr>teardown := Abort_Returned\<rparr>
      | Abort_Returned \<Rightarrow> k)"

subsection \<open>Schedules\<close>

text \<open>
  A schedule lists who takes the next atomic step: a thread of the listener, the provider
  delivering a response, or the caller of \<^verbatim>\<open>AbortAllOutstandingEvents\<close>.
\<close>

datatype sched = Thread tid | Response "64 word" MessageType | Abort

fun exec :: "sched \<Rightarrow> kernel \<Rightarrow> kernel" where
  "exec (Thread t) k = thread_step t k"
| "exec (Response mid responseType) k = KauthHandler_HandleKernelMessageResponse mid responseType k"
| "exec Abort k = AbortAllOutstandingEvents k"

fun run :: "sched list \<Rightarrow> kernel \<Rightarrow> kernel" where
  "run [] k = k"
| "run (a # as) k = run as (exec a k)"

text \<open>
  The places of a round trip between the critical section that may insert the record and
  the one that removes it.
\<close>

fun in_wait_window :: "pc \<Rightarrow> bool" where
  "in_wait_window TSR_SendMessage = True"
| "in_wait_window TSR_While_receivedResponse = True"
| "in_wait_window TSR_While_isShuttingDown = True"
| "in_wait_window TSR_Sleep = True"
| "in_wait_window TSR_If_isShuttingDown = True"
| "in_wait_window TSR_If_response = True"
| "in_wait_window TSR_CleanupAndReturn = True"
| "in_wait_window _ = False"

text \<open>
  The list is well formed when no record is linked twice and the linked records are those
  of the threads that inserted theirs and have not yet run their cleanup.
\<close>

definition registry_ok :: "kernel \<Rightarrow> bool" where
  "registry_ok k =
     (distinct (s_outstandingMessages k)
      \<and> (\<forall>t. (t \<in> set (s_outstandingMessages k)) =
              (in_wait_window (pc (threads k t)) \<and> \<not> isShuttingDown (threads k t))))"

subsection \<open>Statements about a call\<close>

text \<open>
  \<open>returns_without_round_trip t k r\<close>: from the state \<open>k\<close>, the call of thread \<open>t\<close> returns
  \<open>r\<close> with its next two steps (the classification and the cleanup of
  \<^verbatim>\<open>HandleVnodeOperation\<close>), and the list of outstanding messages, the records, the
  messages sent to the provider and the counter of message ids are as they were.
\<close>

definition returns_without_round_trip :: "tid \<Rightarrow> kernel \<Rightarrow> int \<Rightarrow> bool" where
  "returns_without_round_trip t k r =
     (let k' = thread_step t (thread_step t k) in
      pc (threads k' t) = Returned \<and> kauthResult (threads k' t) = r
      \<and> kauthError (threads k' t) = kauthError (threads k t)
      \<and> s_outstandingMessages k' = s_outstandingMessages k
      \<and> message k' = message k \<and> sent k' = sent k
      \<and> s_nextMessageId k' = s_nextMessageId k)"

text \<open>
  The verdict for a node of an offline root in the words of the specification, bit by bit:
  deny a destructive or metadata-writing access that is not a pure query; on an empty
  placeholder defer queries, deletions and reads of extended attributes, and for a
  directory also reads of attributes and security, listing and search, and deny the rest;
  defer on hydrated content.
\<close>

definition spec_offline_verdict :: "kauth_action_t \<Rightarrow> bool \<Rightarrow> bool \<Rightarrow> int" where
  "spec_offline_verdict act isDir isEmpty =
     (let has = ActionBitIsSet act;
          destructive =
            (has KAUTH_VNODE_WRITE_ATTRIBUTES \<or> has KAUTH_VNODE_WRITE_EXTATTRIBUTES
             \<or> has KAUTH_VNODE_WRITE_DATA \<or> has KAUTH_VNODE_APPEND_DATA
             \<or> has KAUTH_VNODE_WRITE_SECURITY \<or> has KAUTH_VNODE_LINKTARGET);
          query = has KAUTH_VNODE_ACCESS
      in
      if destructive \<and> \<not> query then KAUTH_RESULT_DENY
      else if isEmpty then
        (if query \<or> has KAUTH_VNODE_DELETE \<or> has KAUTH_VNODE_DELETE_CHILD
            \<or> has KAUTH_VNODE_READ_EXTATTRIBUTES
            \<or> (isDir \<and> (has KAUTH_VNODE_READ_ATTRIBUTES \<or> has KAUTH_VNODE_READ_SECURITY
                          \<or> has KAUTH_VNODE_LIST_DIRECTORY \<or> has KAUTH_VNODE_SEARCH))
         then KAUTH_RESULT_DEFER else KAUTH_RESULT_DENY)
      else KAUTH_RESULT_DEFER)"

text \<open>
  A call is settled once the round trip has decided: the thread is at the cleanup of
  \<^verbatim>\<open>TrySendRequestAndWaitForResponse\<close>, at the cleanup of \<^verbatim>\<open>HandleVnodeOperation\<close>, or has
  returned.
\<close>

fun settled :: "pc \<Rightarrow> bool" where
  "settled TSR_CleanupAndReturn = True"
| "settled HVO_CleanupAndReturn = True"
| "settled Returned = True"
| "settled _ = False"

text \<open>
  A bound on the steps a thread still takes until it has returned, from the check of the
  shutdown flag on, for a thread that is settled or runs while the flag is set, and whose
  record is linked when it comes to the cleanup.
\<close>

text \<open>A call is decided when it is settled or has stopped at the undefined removal.\<close>

fun decided :: "pc \<Rightarrow> bool" where
  "decided Undefined_LIST_REMOVE = True"
| "decided p = settled p"

text \<open>
  The record of the thread is linked, or the thread is past the cleanup of the round trip:
  the cleanup, when the thread comes to it, finds the record in the list.
\<close>

definition linked_until_cleanup :: "tid \<Rightarrow> kernel \<Rightarrow> bool" where
  "linked_until_cleanup t k =
     (t \<in> set (s_outstandingMessages k) \<or> pc (threads k t) = HVO_CleanupAndReturn
      \<or> pc (threads k t) = Returned)"

fun steps_to_return :: "pc \<Rightarrow> nat" where
  "steps_to_return TSR_CheckAndInsert = 8"
| "steps_to_return TSR_SendMessage = 7"
| "steps_to_return TSR_Sleep = 6"
| "steps_to_return TSR_While_receivedResponse = 5"
| "steps_to_return TSR_While_isShuttingDown = 4"
| "steps_to_return TSR_If_isShuttingDown = 3"
| "steps_to_return TSR_If_response = 3"
| "steps_to_return TSR_CleanupAndReturn = 2"
| "steps_to_return HVO_CleanupAndReturn = 1"
| "steps_to_return _ = 0"

fun in_round_trip :: "pc \<Rightarrow> bool" where
  "in_round_trip HVO_Entry = False"
| "in_round_trip TSR_Entry = False"
| "in_round_trip Panic = False"
| "in_round_trip Undefined_LIST_REMOVE = False"
| "in_round_trip _ = True"

text \<open>
  The thread will see the shutdown flag: the flag is set, and the thread is at its check,
  or past the check with its local \<^verbatim>\<open>isShuttingDown\<close> true, or in the loop, or at the
  reading of the flag after the loop, or decided with \<^verbatim>\<open>KAUTH_RESULT_DENY\<close>.
\<close>

definition shutdown_seen :: "tid \<Rightarrow> kernel \<Rightarrow> bool" where
  "shutdown_seen t k =
     (let th = threads k t in
      s_isShuttingDown k
      \<and> (pc th = TSR_CheckAndInsert
         \<or> (pc th = TSR_SendMessage \<and> isShuttingDown th)
         \<or> pc th = TSR_Sleep
         \<or> pc th = TSR_While_receivedResponse
         \<or> pc th = TSR_While_isShuttingDown
         \<or> pc th = TSR_If_isShuttingDown
         \<or> (decided (pc th) \<and> kauthResult th = KAUTH_RESULT_DENY)))"

text \<open>
  A thread is blocked in the loop of the round trip when it is at one of the loop's three
  places, its record has no response and the shutdown flag is not set. A step of a
  schedule is quiet when it is a thread's step or a response that is neither a success
  nor a failure.
\<close>

definition blocked :: "tid \<Rightarrow> kernel \<Rightarrow> bool" where
  "blocked t k =
     ((pc (threads k t) = TSR_Sleep \<or> pc (threads k t) = TSR_While_receivedResponse
       \<or> pc (threads k t) = TSR_While_isShuttingDown)
      \<and> \<not> receivedResponse (message k t) \<and> \<not> s_isShuttingDown k)"

fun quiet :: "sched \<Rightarrow> bool" where
  "quiet (Thread t) = True"
| "quiet (Response mid responseType) =
     (responseType \<noteq> MessageType_Response_Success \<and> responseType \<noteq> MessageType_Response_Fail)"
| "quiet Abort = False"

subsection \<open>Sample events and states\<close>

text \<open>
  A root with a provider (process 100) and the same root offline; a node on a managed
  file system; an event; a thread about to enter \<^verbatim>\<open>HandleVnodeOperation\<close>; and the state
  that \<^verbatim>\<open>KauthHandler_Init\<close> leaves (an empty list, the next id 1, no shutdown), in which
  thread 0 is about to handle the event and no other thread is in the listener.
\<close>

definition online_root :: VirtualizationRoot where
  "online_root = \<lparr>index = 0, path = ''/repo'', providerPid = 100, providerUserClient = Some 1\<rparr>"

definition offline_root :: VirtualizationRoot where
  "offline_root = \<lparr>index = 0, path = ''/repo'', providerPid = 100, providerUserClient = None\<rparr>"

definition sample_vnode :: "vtype \<Rightarrow> 32 word \<Rightarrow> VirtualizationRoot option \<Rightarrow> vnode" where
  "sample_vnode vt fl r =
     \<lparr>VnodeIsOnAllowedFilesystem = True, vnode_vtype = vt, va_flags = fl,
      vn_getpath = Some ''/repo/a.txt'', FindForVnode = r\<rparr>"

definition sample_event ::
  "kauth_action_t \<Rightarrow> int \<Rightarrow> string \<Rightarrow> vnode \<Rightarrow> int \<Rightarrow> kauth_event" where
  "sample_event act p pname vn sr =
     \<lparr>action = act, proc_pid = p, proc_name = pname, currentVnode = vn, sendResult = sr\<rparr>"

definition entering :: "kauth_event \<Rightarrow> thread" where
  "entering ev =
     \<lparr>pc = HVO_Entry, event = ev, kauthResult = 0, kauthError = 0, root = offline_root,
      msgType = MessageType_Other 0,
      messageSpec = Message_Init 0 (MessageType_Other 0) 0 [] [],
      isShuttingDown = False, result = False\<rparr>"

definition stack_garbage :: OutstandingMessage where
  "stack_garbage =
     \<lparr>request = messageHeader (Message_Init 0 (MessageType_Other 0) 0 [] []),
      response = MessageType_Other 0, receivedResponse = True\<rparr>"

definition booted :: "kauth_event \<Rightarrow> kernel" where
  "booted ev =
     \<lparr>s_outstandingMessages = [], s_nextMessageId = 1, s_numActiveKauthEvents = 0,
      s_isShuttingDown = False,
      message = (\<lambda>t. stack_garbage),
      threads = (\<lambda>t. if t = 0 then entering ev else (entering ev)\<lparr>pc := Returned\<rparr>),
      wakeups = [], sent = [], kextlog = [], unlinked_removes = [], teardown = Abort_Entry\<rparr>"

text \<open>
  A caller (process 7, \<^verbatim>\<open>cat\<close>) reads the data of an empty regular file of the root
  with a provider; the transport accepts the message.
\<close>

definition hydrate_event :: kauth_event where
  "hydrate_event =
     sample_event KAUTH_VNODE_READ_DATA 7 ''cat'' (sample_vnode VREG 0x18 (Some online_root)) 0"

text \<open>
  Thread 0 after six steps on that event: its record, with the id 1, is linked, the
  message is sent, and the thread sleeps in the loop of the round trip.
\<close>

definition asleep :: kernel where
  "asleep = run [Thread 0, Thread 0, Thread 0, Thread 0, Thread 0, Thread 0] (booted hydrate_event)"

lemmas kauth_bits =
  KAUTH_VNODE_READ_DATA_def KAUTH_VNODE_LIST_DIRECTORY_def KAUTH_VNODE_WRITE_DATA_def
  KAUTH_VNODE_EXECUTE_def KAUTH_VNODE_SEARCH_def KAUTH_VNODE_DELETE_def
  KAUTH_VNODE_APPEND_DATA_def KAUTH_VNODE_DELETE_CHILD_def KAUTH_VNODE_READ_ATTRIBUTES_def
  KAUTH_VNODE_WRITE_ATTRIBUTES_def KAUTH_VNODE_READ_EXTATTRIBUTES_def
  KAUTH_VNODE_WRITE_EXTATTRIBUTES_def KAUTH_VNODE_READ_SECURITY_def
  KAUTH_VNODE_WRITE_SECURITY_def KAUTH_VNODE_LINKTARGET_def KAUTH_VNODE_ACCESS_def

lemmas kauth_results = KAUTH_RESULT_ALLOW_def KAUTH_RESULT_DENY_def KAUTH_RESULT_DEFER_def

lemmas flag_bits = FileFlags_IsInVirtualizationRoot_def FileFlags_IsEmpty_def

lemmas helper_defs =
  FileFlagsBitIsSet_def ActionBitIsSet_def ActionBitsNotSet_def IsFileSystemCrawler_def

lemmas sample_defs =
  online_root_def offline_root_def sample_vnode_def sample_event_def entering_def
  stack_garbage_def booted_def Message_Init_def

lemmas step_defs =
  thread_step_def set_thread_def HandleVnodeOperation_Entry_def
  HandleVnodeOperation_CleanupAndReturn_def TrySendRequestAndWaitForResponse_Entry_def
  TrySendRequestAndWaitForResponse_CheckAndInsert_def
  TrySendRequestAndWaitForResponse_SendMessage_def
  TrySendRequestAndWaitForResponse_While_receivedResponse_def
  TrySendRequestAndWaitForResponse_While_isShuttingDown_def
  TrySendRequestAndWaitForResponse_Sleep_def
  TrySendRequestAndWaitForResponse_If_isShuttingDown_def
  TrySendRequestAndWaitForResponse_If_response_def
  TrySendRequestAndWaitForResponse_CleanupAndReturn_def LIST_REMOVE_def

section \<open>Steps and the list of outstanding messages\<close>

text \<open>
  What a step of one thread, a response or the shutdown leaves alone: the locals of the
  other threads, a shutdown flag that is set, and, once the flag is set, the members of
  the list. The list stays well formed.
\<close>

lemmas env_defs = KauthHandler_HandleKernelMessageResponse_def AbortAllOutstandingEvents_def

lemma thread_step_others:
  "t' \<noteq> t \<Longrightarrow> threads (thread_step t' k) t = threads k t"
  by (cases "pc (threads k t')")
     (simp_all add: step_defs Let_def split: prod.splits gate.splits option.splits)

lemma exec_others: "a \<noteq> Thread t \<Longrightarrow> threads (exec a k) t = threads k t"
  by (cases a)
     (simp_all add: thread_step_others env_defs split: option.splits abort_pc.splits)

lemma thread_step_flag: "s_isShuttingDown (thread_step t k) = s_isShuttingDown k"
  by (cases "pc (threads k t)")
     (simp_all add: step_defs Let_def split: prod.splits gate.splits option.splits)

lemma exec_flag_mono: "s_isShuttingDown k \<Longrightarrow> s_isShuttingDown (exec a k)"
  by (cases a) (simp_all add: thread_step_flag env_defs split: option.splits abort_pc.splits)

lemma run_flag_mono: "s_isShuttingDown k \<Longrightarrow> s_isShuttingDown (run sch k)"
  by (induction sch arbitrary: k) (simp_all add: exec_flag_mono)

lemma thread_step_registry:
  "s_outstandingMessages (thread_step t k) =
     (if pc (threads k t) = TSR_CheckAndInsert \<and> \<not> s_isShuttingDown k
      then t # s_outstandingMessages k
      else if pc (threads k t) = TSR_CleanupAndReturn
      then remove1 t (s_outstandingMessages k)
      else s_outstandingMessages k)"
  by (cases "pc (threads k t)")
     (simp_all add: step_defs Let_def remove1_idem split: prod.splits gate.splits option.splits)

lemma env_registry:
  "s_outstandingMessages (KauthHandler_HandleKernelMessageResponse mid rt k) = s_outstandingMessages k"
  "s_outstandingMessages (AbortAllOutstandingEvents k) = s_outstandingMessages k"
  by (simp_all add: env_defs split: option.splits abort_pc.splits)

lemma exec_registry_shutdown:
  "s_isShuttingDown k \<Longrightarrow>
   set (s_outstandingMessages (exec a k)) \<subseteq> set (s_outstandingMessages k)"
  by (cases a) (auto simp add: thread_step_registry env_registry dest: set_remove1_subset [THEN subsetD])

lemma run_registry_shutdown:
  "s_isShuttingDown k \<Longrightarrow>
   set (s_outstandingMessages (run sch k)) \<subseteq> set (s_outstandingMessages k)"
proof (induction sch arbitrary: k)
  case Nil
  then show ?case by simp
next
  case (Cons a sch)
  have "set (s_outstandingMessages (run sch (exec a k))) \<subseteq> set (s_outstandingMessages (exec a k))"
    using Cons.prems by (intro Cons.IH exec_flag_mono)
  also have "\<dots> \<subseteq> set (s_outstandingMessages k)"
    using Cons.prems by (rule exec_registry_shutdown)
  finally show ?case by simp
qed


lemma thread_step_window:
  "in_wait_window (pc (threads (thread_step t k) t)) \<and> \<not> isShuttingDown (threads (thread_step t k) t)
   \<longleftrightarrow>
     (if pc (threads k t) = TSR_CheckAndInsert then \<not> s_isShuttingDown k
      else if pc (threads k t) = TSR_CleanupAndReturn then False
      else in_wait_window (pc (threads k t)) \<and> \<not> isShuttingDown (threads k t))"
  by (cases "pc (threads k t)")
     (simp_all add: step_defs Let_def split: prod.splits gate.splits option.splits)

lemma registry_ok_thread_step:
  assumes "registry_ok k"
  shows "registry_ok (thread_step t' k)"
proof -
  have d: "distinct (s_outstandingMessages k)"
    and m: "\<And>t. (t \<in> set (s_outstandingMessages k)) =
              (in_wait_window (pc (threads k t)) \<and> \<not> isShuttingDown (threads k t))"
    using assms by (simp_all add: registry_ok_def)
  have n: "t' \<notin> set (s_outstandingMessages k)" if "pc (threads k t') = TSR_CheckAndInsert"
    using that m [of t'] by simp
  have d': "distinct (s_outstandingMessages (thread_step t' k))"
    using d n by (simp add: thread_step_registry)
  have m': "(t \<in> set (s_outstandingMessages (thread_step t' k))) =
              (in_wait_window (pc (threads (thread_step t' k) t))
               \<and> \<not> isShuttingDown (threads (thread_step t' k) t))" for t
  proof (cases "t = t'")
    case True
    show ?thesis
      unfolding True thread_step_window
      using d n m [of t'] by (auto simp add: thread_step_registry)
  next
    case False
    then show ?thesis
      using m [of t] d by (auto simp add: thread_step_registry thread_step_others)
  qed
  show ?thesis using d' m' by (simp add: registry_ok_def)
qed

lemma env_threads:
  "threads (KauthHandler_HandleKernelMessageResponse mid rt k) = threads k"
  "threads (AbortAllOutstandingEvents k) = threads k"
  by (simp_all add: env_defs split: option.splits abort_pc.splits)

lemma registry_ok_exec: "registry_ok k \<Longrightarrow> registry_ok (exec a k)"
  by (cases a) (simp_all add: registry_ok_thread_step, simp_all add: registry_ok_def env_registry env_threads)

lemma registry_ok_run: "registry_ok k \<Longrightarrow> registry_ok (run sch k)"
  by (induction sch arbitrary: k) (simp_all add: registry_ok_exec)

lemma registry_ok_booted: "registry_ok (booted ev)"
  by (simp add: registry_ok_def booted_def entering_def)

text \<open>
  A decided call keeps its result and its error code. A record that is linked stays
  linked until its own thread removes it. A settled call whose record is linked when the
  cleanup comes returns with its next two steps; once the shutdown flag is set, a thread
  at or past its check is denied, with the error code untouched, and returns within eight
  steps if its record is linked at the cleanup.
\<close>

lemma decided_thread_step:
  assumes "decided (pc (threads k t))"
  shows "decided (pc (threads (thread_step t k) t))
       \<and> kauthResult (threads (thread_step t k) t) = kauthResult (threads k t)
       \<and> kauthError (threads (thread_step t k) t) = kauthError (threads k t)"
  using assms by (cases "pc (threads k t)") (simp_all add: step_defs split: option.splits)

lemma decided_exec:
  assumes "decided (pc (threads k t))"
  shows "decided (pc (threads (exec a k) t))
       \<and> kauthResult (threads (exec a k) t) = kauthResult (threads k t)
       \<and> kauthError (threads (exec a k) t) = kauthError (threads k t)"
proof (cases "a = Thread t")
  case True
  then show ?thesis using decided_thread_step [OF assms] by simp
next
  case False
  then show ?thesis using assms by (simp add: exec_others)
qed

lemma decided_run:
  assumes "decided (pc (threads k t))"
  shows "decided (pc (threads (run sch k) t))
       \<and> kauthResult (threads (run sch k) t) = kauthResult (threads k t)
       \<and> kauthError (threads (run sch k) t) = kauthError (threads k t)"
  using assms
proof (induction sch arbitrary: k)
  case Nil
  then show ?case by simp
next
  case (Cons a sch)
  from decided_exec [OF Cons.prems, of a] Cons.IH [of "exec a k"]
  show ?case by simp
qed

lemma linked_thread_step:
  assumes "linked_until_cleanup t k"
  shows "linked_until_cleanup t (thread_step t' k)"
proof (cases "t' = t")
  case True
  show ?thesis
  proof (cases "pc (threads k t) = TSR_CleanupAndReturn")
    case c: True
    with assms have "t \<in> set (s_outstandingMessages k)"
      by (simp add: linked_until_cleanup_def)
    with c show ?thesis
      unfolding True by (simp add: linked_until_cleanup_def step_defs)
  next
    case False
    have "pc (threads k t) = HVO_CleanupAndReturn \<Longrightarrow>
          pc (threads (thread_step t k) t) = Returned"
      and "pc (threads k t) = Returned \<Longrightarrow> pc (threads (thread_step t k) t) = Returned"
      by (simp_all add: step_defs)
    with assms False show ?thesis
      unfolding True by (auto simp add: linked_until_cleanup_def thread_step_registry)
  qed
next
  case False
  with assms show ?thesis
    by (auto simp add: linked_until_cleanup_def thread_step_registry thread_step_others)
qed

lemma linked_exec: "linked_until_cleanup t k \<Longrightarrow> linked_until_cleanup t (exec a k)"
  by (cases a)
     (simp_all add: linked_thread_step, simp_all add: linked_until_cleanup_def env_registry env_threads)

lemma settled_exec:
  assumes "settled (pc (threads k t))" and "linked_until_cleanup t k"
  shows "settled (pc (threads (exec a k) t))"
proof (cases "a = Thread t")
  case True
  from assms have "settled (pc (threads (thread_step t k) t))"
    by (cases "pc (threads k t)") (simp_all add: step_defs linked_until_cleanup_def)
  with True show ?thesis by simp
next
  case False
  then show ?thesis using assms(1) by (simp add: exec_others)
qed

lemma settled_run:
  assumes "settled (pc (threads k t))" and "linked_until_cleanup t k"
  shows "settled (pc (threads (run sch k) t))"
  using assms
proof (induction sch arbitrary: k)
  case Nil
  then show ?case by simp
next
  case (Cons a sch)
  from settled_exec [OF Cons.prems, of a] linked_exec [OF Cons.prems(2), of a]
  show ?case using Cons.IH [of "exec a k"] by simp
qed

lemma steps_thread_step:
  assumes "s_isShuttingDown k \<or> settled (pc (threads k t))"
    and "in_round_trip (pc (threads k t))"
    and "linked_until_cleanup t k"
  shows "in_round_trip (pc (threads (thread_step t k) t))
       \<and> steps_to_return (pc (threads (thread_step t k) t)) \<le> steps_to_return (pc (threads k t)) - 1"
  using assms
  by (cases "pc (threads k t)") (auto simp add: step_defs Let_def linked_until_cleanup_def)

lemma returns_in_steps:
  assumes "s_isShuttingDown k \<or> settled (pc (threads k t))"
    and "in_round_trip (pc (threads k t))"
    and "linked_until_cleanup t k"
    and "steps_to_return (pc (threads k t)) \<le> count_list sch (Thread t)"
  shows "pc (threads (run sch k) t) = Returned"
  using assms
proof (induction sch arbitrary: k)
  case Nil
  then show ?case by (cases "pc (threads k t)") simp_all
next
  case (Cons a sch)
  have s: "s_isShuttingDown (exec a k) \<or> settled (pc (threads (exec a k) t))"
    using Cons.prems(1,3) settled_exec [of k t a] exec_flag_mono [of k a] by blast
  have l: "linked_until_cleanup t (exec a k)"
    using Cons.prems(3) by (rule linked_exec)
  show ?case
  proof (cases "a = Thread t")
    case True
    from steps_thread_step [OF Cons.prems(1,2,3)] True
    have i: "in_round_trip (pc (threads (exec a k) t))"
      and "steps_to_return (pc (threads (exec a k) t)) \<le> steps_to_return (pc (threads k t)) - 1"
      by simp_all
    moreover have "steps_to_return (pc (threads k t)) \<le> Suc (count_list sch (Thread t))"
      using Cons.prems(4) True by simp
    ultimately have "steps_to_return (pc (threads (exec a k) t)) \<le> count_list sch (Thread t)"
      by linarith
    with s l i show ?thesis using Cons.IH [of "exec a k"] by simp
  next
    case False
    from False Cons.prems(2,4)
    have "in_round_trip (pc (threads (exec a k) t))"
      and "steps_to_return (pc (threads (exec a k) t)) \<le> count_list sch (Thread t)"
      by (simp_all add: exec_others)
    with s l show ?thesis using Cons.IH [of "exec a k"] by simp
  qed
qed

lemma shutdown_seen_thread_step:
  assumes "shutdown_seen t k"
  shows "shutdown_seen t (thread_step t k)
       \<and> kauthError (threads (thread_step t k) t) = kauthError (threads k t)"
proof -
  have f: "s_isShuttingDown k"
    using assms by (simp add: shutdown_seen_def Let_def)
  then have f': "s_isShuttingDown (thread_step t k)" by (simp add: thread_step_flag)
  have "pc (threads k t) = TSR_CheckAndInsert
         \<or> (pc (threads k t) = TSR_SendMessage \<and> isShuttingDown (threads k t))
         \<or> pc (threads k t) = TSR_Sleep
         \<or> pc (threads k t) = TSR_While_receivedResponse
         \<or> pc (threads k t) = TSR_While_isShuttingDown
         \<or> pc (threads k t) = TSR_If_isShuttingDown
         \<or> (decided (pc (threads k t)) \<and> kauthResult (threads k t) = KAUTH_RESULT_DENY)"
    using assms by (simp add: shutdown_seen_def Let_def)
  then show ?thesis
    using f f'
    unfolding shutdown_seen_def Let_def
    by (cases "pc (threads k t)") (auto simp add: step_defs Let_def split: option.splits)
qed

lemma shutdown_seen_exec:
  assumes "shutdown_seen t k"
  shows "shutdown_seen t (exec a k)
       \<and> kauthError (threads (exec a k) t) = kauthError (threads k t)"
proof (cases "a = Thread t")
  case True
  then show ?thesis using shutdown_seen_thread_step [OF assms] by simp
next
  case False
  have f: "s_isShuttingDown k"
    using assms by (simp add: shutdown_seen_def Let_def)
  show ?thesis
    using assms exec_flag_mono [OF f, of a]
    by (simp add: shutdown_seen_def Let_def exec_others [OF False])
qed

lemma shutdown_seen_run:
  assumes "shutdown_seen t k"
  shows "shutdown_seen t (run sch k)
       \<and> kauthError (threads (run sch k) t) = kauthError (threads k t)"
  using assms
proof (induction sch arbitrary: k)
  case Nil
  then show ?case by simp
next
  case (Cons a sch)
  from shutdown_seen_exec [OF Cons.prems, of a] Cons.IH [of "exec a k"]
  show ?case by simp
qed

lemma shutdown_seen_returns:
  assumes "shutdown_seen t k"
  shows "pc (threads (run sch k) t) \<noteq> Panic
       \<and> (pc (threads (run sch k) t) = Returned \<longrightarrow>
            kauthResult (threads (run sch k) t) = KAUTH_RESULT_DENY)
       \<and> kauthError (threads (run sch k) t) = kauthError (threads k t)
       \<and> (linked_until_cleanup t k \<and> pc (threads k t) \<noteq> Undefined_LIST_REMOVE
            \<and> 8 \<le> count_list sch (Thread t) \<longrightarrow>
            pc (threads (run sch k) t) = Returned)"
proof -
  have s: "shutdown_seen t (run sch k)"
    and e: "kauthError (threads (run sch k) t) = kauthError (threads k t)"
    using shutdown_seen_run [OF assms] by simp_all
  have f: "s_isShuttingDown k"
    and b: "steps_to_return (pc (threads k t)) \<le> 8"
    using assms by (auto simp add: shutdown_seen_def Let_def elim: decided.elims settled.elims)
  have i: "in_round_trip (pc (threads k t))" if "pc (threads k t) \<noteq> Undefined_LIST_REMOVE"
    using assms that by (auto simp add: shutdown_seen_def Let_def elim: decided.elims settled.elims)
  have r: "pc (threads (run sch k) t) = Returned"
    if "linked_until_cleanup t k" and "pc (threads k t) \<noteq> Undefined_LIST_REMOVE"
      and "8 \<le> count_list sch (Thread t)"
    using f i [OF that(2)] that(1) b that(3) by (intro returns_in_steps) simp_all
  from s have "pc (threads (run sch k) t) \<noteq> Panic"
    and "pc (threads (run sch k) t) = Returned \<longrightarrow>
            kauthResult (threads (run sch k) t) = KAUTH_RESULT_DENY"
    by (auto simp add: shutdown_seen_def Let_def)
  with e r show ?thesis by simp
qed

text \<open>
  A thread that will see the flag and whose record is not linked comes to the removal that
  is undefined, within eight steps, denied, and does not return.
\<close>

lemma unlinked_removes_thread_step:
  "set (unlinked_removes k) \<subseteq> set (unlinked_removes (thread_step t k))"
  by (cases "pc (threads k t)")
     (auto simp add: step_defs Let_def split: prod.splits gate.splits option.splits)

lemma unlinked_removes_exec: "set (unlinked_removes k) \<subseteq> set (unlinked_removes (exec a k))"
  by (cases a)
     (simp_all add: unlinked_removes_thread_step, simp_all add: env_defs split: option.splits abort_pc.splits)

lemma undefined_path_exec:
  assumes "shutdown_seen t k"
    and "t \<notin> set (s_outstandingMessages k)"
    and "pc (threads k t) \<noteq> HVO_CleanupAndReturn" and "pc (threads k t) \<noteq> Returned"
    and "pc (threads k t) = Undefined_LIST_REMOVE \<longrightarrow> t \<in> set (unlinked_removes k)"
  shows "t \<notin> set (s_outstandingMessages (exec a k))
       \<and> pc (threads (exec a k) t) \<noteq> HVO_CleanupAndReturn
       \<and> pc (threads (exec a k) t) \<noteq> Returned
       \<and> (pc (threads (exec a k) t) = Undefined_LIST_REMOVE \<longrightarrow>
            t \<in> set (unlinked_removes (exec a k)))
       \<and> (a = Thread t \<longrightarrow>
            steps_to_return (pc (threads (exec a k) t)) \<le> steps_to_return (pc (threads k t)) - 1)"
proof -
  have f: "s_isShuttingDown k" using assms(1) by (simp add: shutdown_seen_def Let_def)
  have n: "t \<notin> set (s_outstandingMessages (exec a k))"
    using exec_registry_shutdown [OF f, of a] assms(2) by blast
  show ?thesis
  proof (cases "a = Thread t")
    case True
    have p: "pc (threads k t) = TSR_CheckAndInsert
         \<or> (pc (threads k t) = TSR_SendMessage \<and> isShuttingDown (threads k t))
         \<or> pc (threads k t) = TSR_Sleep
         \<or> pc (threads k t) = TSR_While_receivedResponse
         \<or> pc (threads k t) = TSR_While_isShuttingDown
         \<or> pc (threads k t) = TSR_If_isShuttingDown
         \<or> pc (threads k t) = TSR_CleanupAndReturn
         \<or> pc (threads k t) = Undefined_LIST_REMOVE"
      using assms(1,3,4)
      by (auto simp add: shutdown_seen_def Let_def elim: decided.elims settled.elims)
    have "pc (threads (thread_step t k) t) \<noteq> HVO_CleanupAndReturn
       \<and> pc (threads (thread_step t k) t) \<noteq> Returned
       \<and> (pc (threads (thread_step t k) t) = Undefined_LIST_REMOVE \<longrightarrow>
            t \<in> set (unlinked_removes (thread_step t k)))
       \<and> steps_to_return (pc (threads (thread_step t k) t)) \<le> steps_to_return (pc (threads k t)) - 1"
      using p f assms(2,5)
      by (elim disjE conjE) (simp_all add: step_defs Let_def)
    with n True show ?thesis by simp
  next
    case False
    with n assms(3,4,5) unlinked_removes_exec [of k a] show ?thesis
      by (auto simp add: exec_others)
  qed
qed

lemma undefined_path_run:
  assumes "shutdown_seen t k"
    and "t \<notin> set (s_outstandingMessages k)"
    and "pc (threads k t) \<noteq> HVO_CleanupAndReturn" and "pc (threads k t) \<noteq> Returned"
    and "pc (threads k t) = Undefined_LIST_REMOVE \<longrightarrow> t \<in> set (unlinked_removes k)"
    and "steps_to_return (pc (threads k t)) \<le> Suc (count_list sch (Thread t))"
  shows "pc (threads (run sch k) t) = Undefined_LIST_REMOVE
       \<and> t \<in> set (unlinked_removes (run sch k))
       \<and> kauthResult (threads (run sch k) t) = KAUTH_RESULT_DENY"
  using assms
proof (induction sch arbitrary: k)
  case Nil
  then have "steps_to_return (pc (threads k t)) \<le> 1" by simp
  with Nil.prems(1,3,4) have "pc (threads k t) = Undefined_LIST_REMOVE
      \<and> kauthResult (threads k t) = KAUTH_RESULT_DENY"
    by (auto simp add: shutdown_seen_def Let_def elim: decided.elims settled.elims)
  with Nil.prems(5) show ?case by simp
next
  case (Cons a sch)
  note u = undefined_path_exec [OF Cons.prems(1,2,3,4,5), of a]
  have s: "shutdown_seen t (exec a k)" using shutdown_seen_exec [OF Cons.prems(1)] by simp
  have "steps_to_return (pc (threads (exec a k) t)) \<le> Suc (count_list sch (Thread t))"
  proof (cases "a = Thread t")
    case True
    with u have "steps_to_return (pc (threads (exec a k) t))
        \<le> steps_to_return (pc (threads k t)) - 1" by simp
    moreover have "steps_to_return (pc (threads k t)) \<le> Suc (Suc (count_list sch (Thread t)))"
      using Cons.prems(6) True by simp
    ultimately show ?thesis by linarith
  next
    case False
    with Cons.prems(6) show ?thesis by (simp add: exec_others)
  qed
  with s u show ?case using Cons.IH [of "exec a k"] by simp
qed

section \<open>The classification of an event\<close>

text \<open>A verdict of the classification is what the call returns, two steps later.\<close>

lemma gate_verdict_returns:
  assumes "pc (threads k t) = HVO_Entry"
    and "snd (HandleVnodeOperation_gate (event (threads k t))) = Verdict r"
  shows "returns_without_round_trip t k r"
  using assms
  by (cases "HandleVnodeOperation_gate (event (threads k t))")
     (simp add: returns_without_round_trip_def thread_step_def set_thread_def
        HandleVnodeOperation_Entry_def HandleVnodeOperation_CleanupAndReturn_def)

lemma gate_ignored:
  "fst (ShouldIgnoreVnodeType (vnode_vtype (currentVnode ev))) \<Longrightarrow>
   HandleVnodeOperation_gate ev = ([], Verdict KAUTH_RESULT_DEFER)"
  by (cases "vnode_vtype (currentVnode ev)") (simp_all add: HandleVnodeOperation_gate_def)

text \<open>The tests of the offline branch, bit by bit.\<close>

lemma ActionBitIsSet_OR:
  "ActionBitIsSet a (x OR y) = (ActionBitIsSet a x \<or> ActionBitIsSet a y)"
  by (simp add: ActionBitIsSet_def bit.conj_disj_distrib or_eq_0_iff)

lemma ActionBitsNotSet_iff: "ActionBitsNotSet a x = (\<not> ActionBitIsSet a x)"
  by (auto simp add: ActionBitIsSet_def ActionBitsNotSet_def)

lemma offline_refines_spec:
  "0 \<le> index rt \<Longrightarrow>
   snd (HandleVnodeOperation_offline ev rt) =
     Verdict (spec_offline_verdict (action ev) (vnode_vtype (currentVnode ev) = VDIR)
                (FileFlagsBitIsSet (va_flags (currentVnode ev)) FileFlags_IsEmpty))"
  by (auto simp add: HandleVnodeOperation_offline_def spec_offline_verdict_def Let_def
        ActionBitIsSet_OR ActionBitsNotSet_iff)

text \<open>
  A node type that is neither ignored nor a directory is classified as a regular file is.
\<close>

lemma offline_as_regular:
  "vnode_vtype (currentVnode ev) \<noteq> VDIR \<Longrightarrow>
   HandleVnodeOperation_offline (ev\<lparr>currentVnode := (currentVnode ev)\<lparr>vnode_vtype := VREG\<rparr>\<rparr>) rt
     = HandleVnodeOperation_offline ev rt"
  by (simp add: HandleVnodeOperation_offline_def Let_def)

lemma online_as_regular:
  "vnode_vtype (currentVnode ev) \<noteq> VDIR \<Longrightarrow>
   HandleVnodeOperation_online (ev\<lparr>currentVnode := (currentVnode ev)\<lparr>vnode_vtype := VREG\<rparr>\<rparr>) rt
     = HandleVnodeOperation_online ev rt"
proof -
  assume "vnode_vtype (currentVnode ev) \<noteq> VDIR"
  then have "VDIR \<noteq> vnode_vtype (currentVnode ev)" by auto
  then show ?thesis by (simp add: HandleVnodeOperation_online_def Let_def)
qed

lemma gate_exotic:
  assumes "VnodeIsOnAllowedFilesystem (currentVnode ev)"
    and "vnode_vtype (currentVnode ev) = vt"
    and "vt = VSTR \<or> vt = VCPLX \<or> vt = VUNKNOWN n"
  shows "HandleVnodeOperation_gate ev =
      (snd (ShouldIgnoreVnodeType vt)
         @ fst (HandleVnodeOperation_gate (ev\<lparr>currentVnode := (currentVnode ev)\<lparr>vnode_vtype := VREG\<rparr>\<rparr>)),
       snd (HandleVnodeOperation_gate (ev\<lparr>currentVnode := (currentVnode ev)\<lparr>vnode_vtype := VREG\<rparr>\<rparr>)))"
proof -
  have nd: "vnode_vtype (currentVnode ev) \<noteq> VDIR" using assms(2,3) by auto
  show ?thesis
    using assms
    by (elim disjE; simp add: HandleVnodeOperation_gate_def Let_def offline_as_regular [OF nd]
        online_as_regular [OF nd] case_prod_beta split: option.splits)
qed

text \<open>
  Past the three guards (file system, node type, flag of the root) the verdict is the
  crawler's denial, or that of the branch of the root.
\<close>

lemma gate_past_guards:
  assumes "VnodeIsOnAllowedFilesystem (currentVnode ev)"
    and "\<not> fst (ShouldIgnoreVnodeType (vnode_vtype (currentVnode ev)))"
    and "FileFlagsBitIsSet (va_flags (currentVnode ev)) FileFlags_IsInVirtualizationRoot"
  shows "snd (HandleVnodeOperation_gate ev) =
     (if FileFlagsBitIsSet (va_flags (currentVnode ev)) FileFlags_IsEmpty
         \<and> IsFileSystemCrawler (proc_name ev)
      then Verdict KAUTH_RESULT_DENY
      else case FindForVnode (currentVnode ev) of
             None \<Rightarrow> Verdict KAUTH_RESULT_DEFER
           | Some rt \<Rightarrow>
               (case providerUserClient rt of
                  None \<Rightarrow> snd (HandleVnodeOperation_offline ev rt)
                | Some c \<Rightarrow> snd (HandleVnodeOperation_online ev rt)))"
  using assms
  by (simp add: HandleVnodeOperation_gate_def Let_def case_prod_beta split: option.splits)

lemma gate_provider:
  assumes "FindForVnode (currentVnode ev) = Some rt"
    and "providerUserClient rt = Some c"
    and "proc_pid ev = providerPid rt"
  shows "snd (HandleVnodeOperation_gate ev) =
     Verdict (if VnodeIsOnAllowedFilesystem (currentVnode ev)
                 \<and> \<not> fst (ShouldIgnoreVnodeType (vnode_vtype (currentVnode ev)))
                 \<and> FileFlagsBitIsSet (va_flags (currentVnode ev)) FileFlags_IsInVirtualizationRoot
                 \<and> FileFlagsBitIsSet (va_flags (currentVnode ev)) FileFlags_IsEmpty
                 \<and> IsFileSystemCrawler (proc_name ev)
              then KAUTH_RESULT_DENY else KAUTH_RESULT_DEFER)"
proof (cases "VnodeIsOnAllowedFilesystem (currentVnode ev)
    \<and> \<not> fst (ShouldIgnoreVnodeType (vnode_vtype (currentVnode ev)))
    \<and> FileFlagsBitIsSet (va_flags (currentVnode ev)) FileFlags_IsInVirtualizationRoot")
  case True
  then have "snd (HandleVnodeOperation_gate ev) =
     (if FileFlagsBitIsSet (va_flags (currentVnode ev)) FileFlags_IsEmpty
         \<and> IsFileSystemCrawler (proc_name ev)
      then Verdict KAUTH_RESULT_DENY
      else snd (HandleVnodeOperation_online ev rt))"
    using gate_past_guards [of ev] assms(1,2) by simp
  moreover have "snd (HandleVnodeOperation_online ev rt) = Verdict KAUTH_RESULT_DEFER"
    using assms(3) by (simp add: HandleVnodeOperation_online_def)
  ultimately show ?thesis using True by simp
next
  case False
  then have "snd (HandleVnodeOperation_gate ev) = Verdict KAUTH_RESULT_DEFER"
    by (auto simp add: HandleVnodeOperation_gate_def Let_def case_prod_beta)
  with False show ?thesis by auto
qed

subsection \<open>Node types\<close>

text \<open>
  Claim C1, as the code has it. For the node types \<^verbatim>\<open>VNON\<close>, \<^verbatim>\<open>VBLK\<close>, \<^verbatim>\<open>VCHR\<close>,
  \<^verbatim>\<open>VSOCK\<close>, \<^verbatim>\<open>VFIFO\<close> and \<^verbatim>\<open>VBAD\<close> the call returns \<^verbatim>\<open>KAUTH_RESULT_DEFER\<close> at once:
  nothing is logged, no flag or root decides, and no round trip is made. For \<^verbatim>\<open>VSTR\<close>,
  \<^verbatim>\<open>VCPLX\<close> and a value outside the enumeration, \<^verbatim>\<open>ShouldIgnoreVnodeType\<close> logs the
  node and answers \<^verbatim>\<open>false\<close>: on a managed file system the event is then classified
  exactly as the same event on a regular file, after the log entry.
\<close>

theorem C1_ignored_types_defer:
  assumes "pc (threads k t) = HVO_Entry"
    and "event (threads k t) = ev"
    and "vnode_vtype (currentVnode ev) = vt"
  shows "(vt \<in> {VNON, VBLK, VCHR, VSOCK, VFIFO, VBAD} \<longrightarrow>
            HandleVnodeOperation_gate ev = ([], Verdict KAUTH_RESULT_DEFER)
            \<and> returns_without_round_trip t k KAUTH_RESULT_DEFER)
       \<and> (vt \<in> {VSTR, VCPLX} \<union> range VUNKNOWN \<longrightarrow>
            \<not> fst (ShouldIgnoreVnodeType vt) \<and> snd (ShouldIgnoreVnodeType vt) \<noteq> []
            \<and> (VnodeIsOnAllowedFilesystem (currentVnode ev) \<longrightarrow>
                 HandleVnodeOperation_gate ev =
                   (snd (ShouldIgnoreVnodeType vt)
                      @ fst (HandleVnodeOperation_gate
                              (ev\<lparr>currentVnode := (currentVnode ev)\<lparr>vnode_vtype := VREG\<rparr>\<rparr>)),
                    snd (HandleVnodeOperation_gate
                           (ev\<lparr>currentVnode := (currentVnode ev)\<lparr>vnode_vtype := VREG\<rparr>\<rparr>)))))"
proof (intro conjI impI)
  assume ign: "vt \<in> {VNON, VBLK, VCHR, VSOCK, VFIFO, VBAD}"
  then have "fst (ShouldIgnoreVnodeType (vnode_vtype (currentVnode ev)))"
    using assms(3) by auto
  then show g: "HandleVnodeOperation_gate ev = ([], Verdict KAUTH_RESULT_DEFER)"
    by (rule gate_ignored)
  show "returns_without_round_trip t k KAUTH_RESULT_DEFER"
    using assms(1) by (rule gate_verdict_returns) (simp add: assms(2) g)
next
  assume ex: "vt \<in> {VSTR, VCPLX} \<union> range VUNKNOWN"
  then show "\<not> fst (ShouldIgnoreVnodeType vt)" by auto
  from ex show "snd (ShouldIgnoreVnodeType vt) \<noteq> []" by auto
  assume "VnodeIsOnAllowedFilesystem (currentVnode ev)"
  moreover from ex obtain n where "vt = VSTR \<or> vt = VCPLX \<or> vt = VUNKNOWN n" by auto
  ultimately show "HandleVnodeOperation_gate ev =
                   (snd (ShouldIgnoreVnodeType vt)
                      @ fst (HandleVnodeOperation_gate
                              (ev\<lparr>currentVnode := (currentVnode ev)\<lparr>vnode_vtype := VREG\<rparr>\<rparr>)),
                    snd (HandleVnodeOperation_gate
                           (ev\<lparr>currentVnode := (currentVnode ev)\<lparr>vnode_vtype := VREG\<rparr>\<rparr>)))"
    using assms(3) gate_exotic by blast
qed

theorem C1_counterexample:
  "vnode_vtype (currentVnode (sample_event KAUTH_VNODE_READ_DATA 7 ''mds'' (sample_vnode VSTR 0x18 (Some online_root)) 0))
     \<notin> {VREG, VDIR, VLNK}
   \<and> returns_without_round_trip 0
       (booted (sample_event KAUTH_VNODE_READ_DATA 7 ''mds'' (sample_vnode VSTR 0x18 (Some online_root)) 0))
       KAUTH_RESULT_DENY
   \<and> KAUTH_RESULT_DENY \<noteq> KAUTH_RESULT_DEFER"
  by (simp add: returns_without_round_trip_def HandleVnodeOperation_gate_def sample_defs
      helper_defs flag_bits thread_step_def HandleVnodeOperation_Entry_def
      HandleVnodeOperation_CleanupAndReturn_def set_thread_def kauth_results)

theorem C1_witness:
  "returns_without_round_trip 0
       (booted (sample_event KAUTH_VNODE_READ_DATA 7 ''mds'' (sample_vnode VFIFO 0x18 (Some online_root)) 0))
       KAUTH_RESULT_DEFER
   \<and> HandleVnodeOperation_gate
        (sample_event KAUTH_VNODE_READ_DATA 7 ''cat'' (sample_vnode VCPLX 0x18 (Some online_root)) 0)
      = ([KextLog_Info ''vnode with type %s encountered, path %s''],
         RoundTrip online_root MessageType_KtoU_HydrateFile)"
proof -
  let ?ev = "sample_event KAUTH_VNODE_READ_DATA 7 ''mds'' (sample_vnode VFIFO 0x18 (Some online_root)) 0"
  let ?ev2 = "sample_event KAUTH_VNODE_READ_DATA 7 ''cat'' (sample_vnode VCPLX 0x18 (Some online_root)) 0"
  have p: "pc (threads (booted ?ev) 0) = HVO_Entry" by (simp add: sample_defs)
  have e: "event (threads (booted ?ev) 0) = ?ev" by (simp add: booted_def entering_def)
  have v: "vnode_vtype (currentVnode ?ev) = VFIFO" by (simp add: sample_defs)
  have p2: "pc (threads (booted ?ev2) 0) = HVO_Entry" by (simp add: sample_defs)
  have e2: "event (threads (booted ?ev2) 0) = ?ev2" by (simp add: booted_def entering_def)
  have v2: "vnode_vtype (currentVnode ?ev2) = VCPLX" by (simp add: sample_defs)
  have a2: "VnodeIsOnAllowedFilesystem (currentVnode ?ev2)" by (simp add: sample_defs)
  have r: "HandleVnodeOperation_gate
             (?ev2\<lparr>currentVnode := (currentVnode ?ev2)\<lparr>vnode_vtype := VREG\<rparr>\<rparr>)
           = ([], RoundTrip online_root MessageType_KtoU_HydrateFile)"
    by (simp add: HandleVnodeOperation_gate_def HandleVnodeOperation_online_def sample_defs
        helper_defs flag_bits kauth_bits)
  from C1_ignored_types_defer [OF p e v] C1_ignored_types_defer [OF p2 e2 v2] a2 r
  show ?thesis by simp
qed

subsection \<open>Crawlers\<close>

text \<open>
  Claim C6, as the code has it. On a managed file system, for a node whose type is not
  ignored and that has both the flag of the virtualization root and the flag \<open>Empty\<close>, a
  caller named \<^verbatim>\<open>mds\<close>, \<^verbatim>\<open>mdworker\<close>, \<^verbatim>\<open>mds_stores\<close>, \<^verbatim>\<open>fseventsd\<close> or \<^verbatim>\<open>Spotlight\<close> is
  denied, never deferred, whatever the action and whatever root the node has (none,
  offline or with a provider): the root is not looked up and no round trip is made.
\<close>

theorem C6_crawler_denied_on_managed_empty_node:
  assumes "pc (threads k t) = HVO_Entry"
    and "event (threads k t) = ev"
    and "VnodeIsOnAllowedFilesystem (currentVnode ev)"
    and "\<not> fst (ShouldIgnoreVnodeType (vnode_vtype (currentVnode ev)))"
    and "FileFlagsBitIsSet (va_flags (currentVnode ev)) FileFlags_IsInVirtualizationRoot"
    and "FileFlagsBitIsSet (va_flags (currentVnode ev)) FileFlags_IsEmpty"
    and "proc_name ev \<in> {''mds'', ''mdworker'', ''mds_stores'', ''fseventsd'', ''Spotlight''}"
  shows "IsFileSystemCrawler (proc_name ev)
       \<and> snd (HandleVnodeOperation_gate ev) = Verdict KAUTH_RESULT_DENY
       \<and> returns_without_round_trip t k KAUTH_RESULT_DENY
       \<and> KAUTH_RESULT_DENY \<noteq> KAUTH_RESULT_DEFER"
proof -
  have c: "IsFileSystemCrawler (proc_name ev)"
    using assms(7) by (auto simp add: IsFileSystemCrawler_def)
  have g: "snd (HandleVnodeOperation_gate ev) = Verdict KAUTH_RESULT_DENY"
    using gate_past_guards [OF assms(3,4,5)] assms(6) c by simp
  have r: "returns_without_round_trip t k KAUTH_RESULT_DENY"
    using assms(1) by (rule gate_verdict_returns) (simp add: assms(2) g)
  show ?thesis using c g r by (simp add: kauth_results)
qed

theorem C6_counterexample:
  "FileFlagsBitIsSet
     (va_flags (currentVnode (sample_event KAUTH_VNODE_READ_DATA 7 ''mds'' (sample_vnode VREG 0x10 None) 0)))
     FileFlags_IsEmpty
   \<and> IsFileSystemCrawler (proc_name (sample_event KAUTH_VNODE_READ_DATA 7 ''mds'' (sample_vnode VREG 0x10 None) 0))
   \<and> returns_without_round_trip 0
       (booted (sample_event KAUTH_VNODE_READ_DATA 7 ''mds'' (sample_vnode VREG 0x10 None) 0))
       KAUTH_RESULT_DEFER
   \<and> KAUTH_RESULT_DEFER \<noteq> KAUTH_RESULT_DENY"
  by (simp add: returns_without_round_trip_def HandleVnodeOperation_gate_def sample_defs
      helper_defs flag_bits thread_step_def HandleVnodeOperation_Entry_def
      HandleVnodeOperation_CleanupAndReturn_def set_thread_def kauth_results)

theorem C6_witness:
  "returns_without_round_trip 0
     (booted (sample_event KAUTH_VNODE_READ_DATA 7 ''Spotlight'' (sample_vnode VDIR 0x18 (Some offline_root)) 0))
     KAUTH_RESULT_DENY"
proof -
  let ?ev = "sample_event KAUTH_VNODE_READ_DATA 7 ''Spotlight'' (sample_vnode VDIR 0x18 (Some offline_root)) 0"
  have p: "pc (threads (booted ?ev) 0) = HVO_Entry" by (simp add: sample_defs)
  have e: "event (threads (booted ?ev) 0) = ?ev" by (simp add: booted_def entering_def)
  have a: "VnodeIsOnAllowedFilesystem (currentVnode ?ev)" by (simp add: sample_defs)
  have i: "\<not> fst (ShouldIgnoreVnodeType (vnode_vtype (currentVnode ?ev)))"
    by (simp add: sample_defs)
  have f1: "FileFlagsBitIsSet (va_flags (currentVnode ?ev)) FileFlags_IsInVirtualizationRoot"
    by (simp add: sample_defs helper_defs flag_bits)
  have f2: "FileFlagsBitIsSet (va_flags (currentVnode ?ev)) FileFlags_IsEmpty"
    by (simp add: sample_defs helper_defs flag_bits)
  have n: "proc_name ?ev \<in> {''mds'', ''mdworker'', ''mds_stores'', ''fseventsd'', ''Spotlight''}"
    by (simp add: sample_defs)
  from C6_crawler_denied_on_managed_empty_node [OF p e a i f1 f2 n] show ?thesis by simp
qed

subsection \<open>The provider itself\<close>

text \<open>
  Claim C9, as the code has it. When the node's root has a provider and the caller is the
  provider's process, the call makes no round trip (no record is inserted, no message is
  sent, no id is taken), whatever the node's type, its flags, the caller's name and the
  action. Its verdict is \<^verbatim>\<open>KAUTH_RESULT_DEFER\<close>, but for one case: on a managed file
  system, for a node whose type is not ignored and that has both the flag of the
  virtualization root and the flag \<open>Empty\<close>, a provider whose process name is a crawler's
  is denied by the check that comes before the root is looked up.
\<close>

theorem C9_provider_is_never_blocked:
  assumes "pc (threads k t) = HVO_Entry"
    and "event (threads k t) = ev"
    and "FindForVnode (currentVnode ev) = Some rt"
    and "providerUserClient rt = Some c"
    and "proc_pid ev = providerPid rt"
  shows "returns_without_round_trip t k
           (if VnodeIsOnAllowedFilesystem (currentVnode ev)
               \<and> \<not> fst (ShouldIgnoreVnodeType (vnode_vtype (currentVnode ev)))
               \<and> FileFlagsBitIsSet (va_flags (currentVnode ev)) FileFlags_IsInVirtualizationRoot
               \<and> FileFlagsBitIsSet (va_flags (currentVnode ev)) FileFlags_IsEmpty
               \<and> IsFileSystemCrawler (proc_name ev)
            then KAUTH_RESULT_DENY else KAUTH_RESULT_DEFER)"
  using assms(1)
  by (rule gate_verdict_returns) (simp only: assms(2) gate_provider [OF assms(3,4,5)])

theorem C9_counterexample:
  "FindForVnode (currentVnode (sample_event KAUTH_VNODE_READ_DATA 100 ''mds'' (sample_vnode VREG 0x18 (Some online_root)) 0))
     = Some online_root
   \<and> providerUserClient online_root \<noteq> None
   \<and> proc_pid (sample_event KAUTH_VNODE_READ_DATA 100 ''mds'' (sample_vnode VREG 0x18 (Some online_root)) 0)
     = providerPid online_root
   \<and> returns_without_round_trip 0
       (booted (sample_event KAUTH_VNODE_READ_DATA 100 ''mds'' (sample_vnode VREG 0x18 (Some online_root)) 0))
       KAUTH_RESULT_DENY
   \<and> KAUTH_RESULT_DENY \<noteq> KAUTH_RESULT_DEFER"
  by (simp add: returns_without_round_trip_def HandleVnodeOperation_gate_def sample_defs
      helper_defs flag_bits thread_step_def HandleVnodeOperation_Entry_def
      HandleVnodeOperation_CleanupAndReturn_def set_thread_def kauth_results)

theorem C9_witness:
  "returns_without_round_trip 0
     (booted (sample_event KAUTH_VNODE_READ_DATA 100 ''gvfs'' (sample_vnode VREG 0x18 (Some online_root)) 0))
     KAUTH_RESULT_DEFER
   \<and> returns_without_round_trip 0
     (booted (sample_event KAUTH_VNODE_READ_DATA 100 ''mds'' (sample_vnode VREG 0x10 (Some online_root)) 0))
     KAUTH_RESULT_DEFER
   \<and> returns_without_round_trip 0
     (booted (sample_event KAUTH_VNODE_READ_DATA 100 ''mds'' (sample_vnode VREG 0x18 (Some online_root)) 0))
     KAUTH_RESULT_DENY
   \<and> snd (HandleVnodeOperation_gate
        (sample_event KAUTH_VNODE_READ_DATA 101 ''gvfs'' (sample_vnode VREG 0x18 (Some online_root)) 0))
      = RoundTrip online_root MessageType_KtoU_HydrateFile"
proof -
  have *: "returns_without_round_trip 0
      (booted (sample_event KAUTH_VNODE_READ_DATA 100 n (sample_vnode VREG fl (Some online_root)) 0))
      (if FileFlagsBitIsSet fl FileFlags_IsInVirtualizationRoot
          \<and> FileFlagsBitIsSet fl FileFlags_IsEmpty \<and> IsFileSystemCrawler n
       then KAUTH_RESULT_DENY else KAUTH_RESULT_DEFER)" for n fl
  proof -
    let ?ev = "sample_event KAUTH_VNODE_READ_DATA 100 n (sample_vnode VREG fl (Some online_root)) 0"
    have p: "pc (threads (booted ?ev) 0) = HVO_Entry" by (simp add: sample_defs)
    have e: "event (threads (booted ?ev) 0) = ?ev" by (simp add: booted_def entering_def)
    have f: "FindForVnode (currentVnode ?ev) = Some online_root" by (simp add: sample_defs)
    have u: "providerUserClient online_root = Some 1" by (simp add: sample_defs)
    have q: "proc_pid ?ev = providerPid online_root" by (simp add: sample_defs)
    from C9_provider_is_never_blocked [OF p e f u q] show ?thesis
      by (simp add: sample_event_def sample_vnode_def)
  qed
  have 1: "returns_without_round_trip 0
     (booted (sample_event KAUTH_VNODE_READ_DATA 100 ''gvfs'' (sample_vnode VREG 0x18 (Some online_root)) 0))
     KAUTH_RESULT_DEFER"
    using * [of "''gvfs''" "0x18"] by (simp add: helper_defs flag_bits)
  have 2: "returns_without_round_trip 0
     (booted (sample_event KAUTH_VNODE_READ_DATA 100 ''mds'' (sample_vnode VREG 0x10 (Some online_root)) 0))
     KAUTH_RESULT_DEFER"
    using * [of "''mds''" "0x10"] by (simp add: helper_defs flag_bits)
  have 3: "returns_without_round_trip 0
     (booted (sample_event KAUTH_VNODE_READ_DATA 100 ''mds'' (sample_vnode VREG 0x18 (Some online_root)) 0))
     KAUTH_RESULT_DENY"
    using * [of "''mds''" "0x18"] by (simp add: helper_defs flag_bits)
  have 4: "snd (HandleVnodeOperation_gate
        (sample_event KAUTH_VNODE_READ_DATA 101 ''gvfs'' (sample_vnode VREG 0x18 (Some online_root)) 0))
      = RoundTrip online_root MessageType_KtoU_HydrateFile"
    by (simp add: HandleVnodeOperation_gate_def HandleVnodeOperation_online_def sample_defs
        helper_defs flag_bits kauth_bits)
  show ?thesis by (intro conjI; (rule 1 2 3 4))
qed

subsection \<open>Offline roots\<close>

text \<open>
  Claim C5, as the code has it. For a node on a managed file system whose type is not
  ignored, that has the flag of the virtualization root and whose root is offline with a
  non-negative index, and unless the node is flagged \<open>Empty\<close> and the caller is a crawler:
  the call returns the verdict of \<open>spec_offline_verdict\<close>, the specification's
  rule read bit by bit, and makes no round trip. So an empty directory that is listed is
  deferred and an empty regular file that is written is denied.
\<close>

theorem C5_offline_root_verdict:
  assumes "pc (threads k t) = HVO_Entry"
    and "event (threads k t) = ev"
    and "VnodeIsOnAllowedFilesystem (currentVnode ev)"
    and "\<not> fst (ShouldIgnoreVnodeType (vnode_vtype (currentVnode ev)))"
    and "FileFlagsBitIsSet (va_flags (currentVnode ev)) FileFlags_IsInVirtualizationRoot"
    and "\<not> (FileFlagsBitIsSet (va_flags (currentVnode ev)) FileFlags_IsEmpty
            \<and> IsFileSystemCrawler (proc_name ev))"
    and "FindForVnode (currentVnode ev) = Some rt"
    and "providerUserClient rt = None"
    and "0 \<le> index rt"
  shows "returns_without_round_trip t k
           (spec_offline_verdict (action ev) (vnode_vtype (currentVnode ev) = VDIR)
              (FileFlagsBitIsSet (va_flags (currentVnode ev)) FileFlags_IsEmpty))"
proof -
  have "snd (HandleVnodeOperation_gate ev) = snd (HandleVnodeOperation_offline ev rt)"
    using gate_past_guards [OF assms(3,4,5)] assms(6,7,8) by simp
  then have g: "snd (HandleVnodeOperation_gate ev) =
      Verdict (spec_offline_verdict (action ev) (vnode_vtype (currentVnode ev) = VDIR)
              (FileFlagsBitIsSet (va_flags (currentVnode ev)) FileFlags_IsEmpty))"
    using offline_refines_spec [OF assms(9)] by simp
  show ?thesis
    using assms(1) by (rule gate_verdict_returns) (simp add: assms(2) g)
qed

theorem C5_counterexample:
  "FindForVnode (currentVnode (sample_event KAUTH_VNODE_LIST_DIRECTORY 7 ''mds'' (sample_vnode VDIR 0x18 (Some offline_root)) 0))
     = Some offline_root
   \<and> providerUserClient offline_root = None
   \<and> spec_offline_verdict
        (action (sample_event KAUTH_VNODE_LIST_DIRECTORY 7 ''mds'' (sample_vnode VDIR 0x18 (Some offline_root)) 0))
        True True = KAUTH_RESULT_DEFER
   \<and> returns_without_round_trip 0
       (booted (sample_event KAUTH_VNODE_LIST_DIRECTORY 7 ''mds'' (sample_vnode VDIR 0x18 (Some offline_root)) 0))
       KAUTH_RESULT_DENY
   \<and> KAUTH_RESULT_DENY \<noteq> KAUTH_RESULT_DEFER"
  by (simp add: returns_without_round_trip_def HandleVnodeOperation_gate_def sample_defs
      helper_defs flag_bits thread_step_def HandleVnodeOperation_Entry_def
      HandleVnodeOperation_CleanupAndReturn_def set_thread_def kauth_results
      spec_offline_verdict_def kauth_bits)

theorem C5_witness:
  "returns_without_round_trip 0
     (booted (sample_event KAUTH_VNODE_LIST_DIRECTORY 7 ''ls'' (sample_vnode VDIR 0x18 (Some offline_root)) 0))
     KAUTH_RESULT_DEFER
   \<and> returns_without_round_trip 0
     (booted (sample_event KAUTH_VNODE_WRITE_DATA 7 ''cat'' (sample_vnode VREG 0x18 (Some offline_root)) 0))
     KAUTH_RESULT_DENY
   \<and> returns_without_round_trip 0
     (booted (sample_event KAUTH_VNODE_READ_DATA 7 ''cat'' (sample_vnode VREG 0x18 (Some offline_root)) 0))
     KAUTH_RESULT_DENY
   \<and> returns_without_round_trip 0
     (booted (sample_event KAUTH_VNODE_READ_DATA 7 ''cat'' (sample_vnode VREG 0x8 (Some offline_root)) 0))
     KAUTH_RESULT_DEFER"
proof -
  have *: "returns_without_round_trip 0 (booted (sample_event a 7 n (sample_vnode vt fl (Some offline_root)) 0))
        (spec_offline_verdict a (vt = VDIR) (FileFlagsBitIsSet fl FileFlags_IsEmpty))"
    if "\<not> fst (ShouldIgnoreVnodeType vt)"
      and "FileFlagsBitIsSet fl FileFlags_IsInVirtualizationRoot"
      and "\<not> IsFileSystemCrawler n"
    for a n vt fl
  proof -
    let ?ev = "sample_event a 7 n (sample_vnode vt fl (Some offline_root)) 0"
    have p: "pc (threads (booted ?ev) 0) = HVO_Entry" by (simp add: sample_defs)
    have e: "event (threads (booted ?ev) 0) = ?ev" by (simp add: booted_def entering_def)
    have a: "VnodeIsOnAllowedFilesystem (currentVnode ?ev)" by (simp add: sample_defs)
    have i: "\<not> fst (ShouldIgnoreVnodeType (vnode_vtype (currentVnode ?ev)))"
      using that(1) by (simp add: sample_defs)
    have f1: "FileFlagsBitIsSet (va_flags (currentVnode ?ev)) FileFlags_IsInVirtualizationRoot"
      using that(2) by (simp add: sample_defs)
    have c: "\<not> (FileFlagsBitIsSet (va_flags (currentVnode ?ev)) FileFlags_IsEmpty
            \<and> IsFileSystemCrawler (proc_name ?ev))"
      using that(3) by (simp add: sample_defs)
    have f: "FindForVnode (currentVnode ?ev) = Some offline_root" by (simp add: sample_defs)
    have u: "providerUserClient offline_root = None" by (simp add: sample_defs)
    have x: "0 \<le> index offline_root" by (simp add: sample_defs)
    from C5_offline_root_verdict [OF p e a i f1 c f u x] show ?thesis
      by (simp add: sample_defs)
  qed
  have 1: "spec_offline_verdict KAUTH_VNODE_LIST_DIRECTORY True True = KAUTH_RESULT_DEFER"
    by (simp add: spec_offline_verdict_def helper_defs flag_bits kauth_bits)
  have 2: "spec_offline_verdict KAUTH_VNODE_WRITE_DATA False True = KAUTH_RESULT_DENY"
    by (simp add: spec_offline_verdict_def helper_defs flag_bits kauth_bits)
  have 3: "spec_offline_verdict KAUTH_VNODE_READ_DATA False True = KAUTH_RESULT_DENY"
    by (simp add: spec_offline_verdict_def helper_defs flag_bits kauth_bits)
  have 4: "spec_offline_verdict KAUTH_VNODE_READ_DATA False False = KAUTH_RESULT_DEFER"
    by (simp add: spec_offline_verdict_def helper_defs flag_bits kauth_bits)
  show ?thesis
    using *[of VDIR "0x18" "''ls''" KAUTH_VNODE_LIST_DIRECTORY]
      *[of VREG "0x18" "''cat''" KAUTH_VNODE_WRITE_DATA]
      *[of VREG "0x18" "''cat''" KAUTH_VNODE_READ_DATA]
      *[of VREG "0x8" "''cat''" KAUTH_VNODE_READ_DATA]
    by (simp add: 1 2 3 4 helper_defs flag_bits)
qed

section \<open>The round trip\<close>

text \<open>The sample round trip, for evaluating schedules.\<close>

lemma hydrate_gate:
  "HandleVnodeOperation_gate hydrate_event = ([], RoundTrip online_root MessageType_KtoU_HydrateFile)"
  by (simp add: hydrate_event_def HandleVnodeOperation_gate_def HandleVnodeOperation_online_def
        sample_defs helper_defs flag_bits kauth_bits)

lemma hydrate_fields:
  "sendResult hydrate_event = 0"
  "vn_getpath (currentVnode hydrate_event) = Some ''/repo/a.txt''"
  "proc_pid hydrate_event = 7"
  "proc_name hydrate_event = ''cat''"
  by (simp_all add: hydrate_event_def sample_event_def sample_vnode_def)

lemmas eval_defs =
  hydrate_gate hydrate_fields booted_def entering_def stack_garbage_def Message_Init_def
  online_root_def step_defs env_defs GetRelativePath_def

subsection \<open>Failure and shutdown\<close>

text \<open>
  Claim C2, as the code has it. A round trip that reads a response other than
  \<^verbatim>\<open>MessageType_Response_Success\<close> (line 436) ends with \<^verbatim>\<open>KAUTH_RESULT_DENY\<close> and sets the
  error code to \<^verbatim>\<open>EAGAIN\<close>, which is not \<^verbatim>\<open>EACCES\<close>. A round trip that finds the shutdown
  flag set while it waits, or when it reads the flag after the loop, ends with
  \<^verbatim>\<open>KAUTH_RESULT_DENY\<close> too, also when a response had arrived, but leaves the error code as
  the caller passed it: line 432 sets the result only. With its record linked, as that of
  a waiting round trip is, each of them returns, whatever the other threads, the provider
  and the shutdown do in between.
\<close>

theorem C2_fail_sets_EAGAIN_shutdown_keeps_error:
  "(pc (threads k t) = TSR_If_response
      \<and> response (message k t) \<noteq> MessageType_Response_Success \<longrightarrow>
        kauthResult (threads (run sch (thread_step t k)) t) = KAUTH_RESULT_DENY
      \<and> kauthError (threads (run sch (thread_step t k)) t) = EAGAIN
      \<and> (t \<in> set (s_outstandingMessages k) \<and> 2 \<le> count_list sch (Thread t) \<longrightarrow>
           pc (threads (run sch (thread_step t k)) t) = Returned))
   \<and> (s_isShuttingDown k
      \<and> pc (threads k t) \<in> {TSR_Sleep, TSR_While_receivedResponse, TSR_While_isShuttingDown,
                             TSR_If_isShuttingDown} \<longrightarrow>
        (pc (threads (run sch k) t) = Returned \<longrightarrow>
           kauthResult (threads (run sch k) t) = KAUTH_RESULT_DENY)
      \<and> kauthError (threads (run sch k) t) = kauthError (threads k t)
      \<and> (t \<in> set (s_outstandingMessages k) \<and> 6 \<le> count_list sch (Thread t) \<longrightarrow>
           pc (threads (run sch k) t) = Returned))
   \<and> EAGAIN \<noteq> EACCES"
proof (intro conjI impI)
  assume a: "pc (threads k t) = TSR_If_response
      \<and> response (message k t) \<noteq> MessageType_Response_Success"
  let ?k = "thread_step t k"
  from a have d: "decided (pc (threads ?k t))"
    and s: "settled (pc (threads ?k t))"
    and r: "kauthResult (threads ?k t) = KAUTH_RESULT_DENY"
    and e: "kauthError (threads ?k t) = EAGAIN"
    and p: "pc (threads ?k t) = TSR_CleanupAndReturn"
    and l: "s_outstandingMessages ?k = s_outstandingMessages k"
    by (auto simp add: step_defs)
  from decided_run [OF d, of sch] r e
  show "kauthResult (threads (run sch ?k) t) = KAUTH_RESULT_DENY"
    and "kauthError (threads (run sch ?k) t) = EAGAIN"
    by simp_all
  assume "t \<in> set (s_outstandingMessages k) \<and> 2 \<le> count_list sch (Thread t)"
  with s p l show "pc (threads (run sch ?k) t) = Returned"
    by (intro returns_in_steps) (simp_all add: linked_until_cleanup_def)
next
  assume b: "s_isShuttingDown k
      \<and> pc (threads k t) \<in> {TSR_Sleep, TSR_While_receivedResponse, TSR_While_isShuttingDown,
                             TSR_If_isShuttingDown}"
  then have s: "shutdown_seen t k" by (auto simp add: shutdown_seen_def)
  from shutdown_seen_returns [OF s, of sch]
  show "kauthError (threads (run sch k) t) = kauthError (threads k t)" by simp
  {
    assume "pc (threads (run sch k) t) = Returned"
    with shutdown_seen_returns [OF s, of sch]
    show "kauthResult (threads (run sch k) t) = KAUTH_RESULT_DENY" by simp
  }
  assume "t \<in> set (s_outstandingMessages k) \<and> 6 \<le> count_list sch (Thread t)"
  with b show "pc (threads (run sch k) t) = Returned"
    by (intro returns_in_steps) (auto simp add: linked_until_cleanup_def)
next
  show "EAGAIN \<noteq> EACCES" by (simp add: EAGAIN_def EACCES_def)
qed

theorem C2_counterexample:
  "pc (threads asleep 0) = TSR_Sleep
   \<and> 0 \<in> set (s_outstandingMessages asleep)
   \<and> \<not> s_isShuttingDown asleep
   \<and> s_isShuttingDown (exec Abort asleep)
   \<and> pc (threads (run [Abort, Thread 0, Thread 0, Thread 0, Thread 0, Thread 0, Thread 0] asleep) 0)
       = Returned
   \<and> kauthResult
        (threads (run [Abort, Thread 0, Thread 0, Thread 0, Thread 0, Thread 0, Thread 0] asleep) 0)
       = KAUTH_RESULT_DENY
   \<and> kauthError
        (threads (run [Abort, Thread 0, Thread 0, Thread 0, Thread 0, Thread 0, Thread 0] asleep) 0)
       \<noteq> EAGAIN"
  by (simp add: asleep_def eval_defs EAGAIN_def)

theorem C2_witness:
  "pc (threads (run [Response 1 MessageType_Response_Fail, Thread 0, Thread 0, Thread 0] asleep) 0)
     = TSR_If_response
   \<and> pc (threads (run [Response 1 MessageType_Response_Fail, Thread 0, Thread 0, Thread 0,
                      Thread 0, Thread 0, Thread 0] asleep) 0) = Returned
   \<and> kauthResult (threads (run [Response 1 MessageType_Response_Fail, Thread 0, Thread 0, Thread 0,
                      Thread 0, Thread 0, Thread 0] asleep) 0) = KAUTH_RESULT_DENY
   \<and> kauthError (threads (run [Response 1 MessageType_Response_Fail, Thread 0, Thread 0, Thread 0,
                      Thread 0, Thread 0, Thread 0] asleep) 0) = EAGAIN
   \<and> s_isShuttingDown (exec Abort asleep)
   \<and> pc (threads (exec Abort asleep) 0) = TSR_Sleep
   \<and> pc (threads (run [Thread 0, Thread 0, Thread 0, Thread 0, Thread 0, Thread 0]
                    (exec Abort asleep)) 0) = Returned
   \<and> kauthResult (threads (run [Thread 0, Thread 0, Thread 0, Thread 0, Thread 0, Thread 0]
                    (exec Abort asleep)) 0) = KAUTH_RESULT_DENY
   \<and> kauthError (threads (run [Thread 0, Thread 0, Thread 0, Thread 0, Thread 0, Thread 0]
                    (exec Abort asleep)) 0) = kauthError (threads asleep 0)"
proof -
  let ?kA = "run [Response 1 MessageType_Response_Fail, Thread 0, Thread 0, Thread 0] asleep"
  let ?kB = "exec Abort asleep"
  have a1: "pc (threads ?kA 0) = TSR_If_response" by (simp add: asleep_def eval_defs)
  have a2: "response (message ?kA 0) \<noteq> MessageType_Response_Success"
    by (simp add: asleep_def eval_defs)
  have a3: "run [Response 1 MessageType_Response_Fail, Thread 0, Thread 0, Thread 0,
                      Thread 0, Thread 0, Thread 0] asleep
            = run [Thread 0, Thread 0] (thread_step 0 ?kA)" by simp
  have b1: "s_isShuttingDown ?kB" by (simp add: asleep_def eval_defs)
  have b2: "pc (threads ?kB 0) = TSR_Sleep" by (simp add: asleep_def eval_defs)
  have b3: "kauthError (threads ?kB 0) = kauthError (threads asleep 0)"
    by (simp add: env_threads)
  have a4: "0 \<in> set (s_outstandingMessages ?kA)" by (simp add: asleep_def eval_defs)
  have b4: "0 \<in> set (s_outstandingMessages ?kB)" by (simp add: asleep_def eval_defs)
  have c2: "(2::nat) \<le> count_list [Thread 0, Thread 0] (Thread 0)" by simp
  have c6: "(6::nat) \<le> count_list [Thread 0, Thread 0, Thread 0, Thread 0, Thread 0, Thread 0] (Thread 0)"
    by simp
  from C2_fail_sets_EAGAIN_shutdown_keeps_error [of ?kA 0 "[Thread 0, Thread 0]"]
    C2_fail_sets_EAGAIN_shutdown_keeps_error
      [of ?kB 0 "[Thread 0, Thread 0, Thread 0, Thread 0, Thread 0, Thread 0]"]
    a1 a2 a4 b1 b2 b3 b4 c2 c6
  show ?thesis unfolding a3 by simp
qed

subsection \<open>No insertion after shutdown\<close>

text \<open>
  Claim C3 does not hold of the code in its last part. What holds:
  \<^verbatim>\<open>AbortAllOutstandingEvents\<close> sets the shutdown flag in its critical section; from a state
  in which the flag is set, over the steps that follow and as long as no removal was
  undefined, the flag stays set and no record that was not in the list is in it; the
  round trip reads the flag and inserts its record in one critical section, and inserts
  exactly when the flag is not set. But a round trip that finds the flag set at this
  check, and so has not inserted its record, does not come to return
  \<^verbatim>\<open>KAUTH_RESULT_DENY\<close>: it sets that result (line 432) and then, within seven of its own
  steps, runs \<^verbatim>\<open>LIST_REMOVE\<close> on the record that was never linked (line 453), which is
  undefined. This is the defect of claim C4.
\<close>

theorem C3_round_trip_that_sees_shutdown_reaches_undefined_removal:
  "(teardown k = Abort_Entry \<longrightarrow>
      s_isShuttingDown (exec Abort k)
      \<and> s_outstandingMessages (exec Abort k) = s_outstandingMessages k)
   \<and> (s_isShuttingDown k \<and> unlinked_removes (run sch k) = [] \<longrightarrow>
        s_isShuttingDown (run sch k)
        \<and> set (s_outstandingMessages (run sch k)) \<subseteq> set (s_outstandingMessages k))
   \<and> (pc (threads k t) = TSR_CheckAndInsert \<longrightarrow>
        s_outstandingMessages (thread_step t k) =
          (if s_isShuttingDown k then s_outstandingMessages k else t # s_outstandingMessages k))
   \<and> (pc (threads k t) = TSR_CheckAndInsert \<and> s_isShuttingDown k
      \<and> t \<notin> set (s_outstandingMessages k) \<longrightarrow>
        t \<notin> set (s_outstandingMessages (thread_step t k))
        \<and> (7 \<le> count_list sch (Thread t) \<longrightarrow>
             pc (threads (run sch k) t) = Undefined_LIST_REMOVE
             \<and> t \<in> set (unlinked_removes (run sch k))
             \<and> kauthResult (threads (run sch k) t) = KAUTH_RESULT_DENY))"
proof (intro conjI impI)
  assume "teardown k = Abort_Entry"
  then show "s_isShuttingDown (exec Abort k)"
    and "s_outstandingMessages (exec Abort k) = s_outstandingMessages k"
    by (simp_all add: AbortAllOutstandingEvents_def)
next
  assume "s_isShuttingDown k \<and> unlinked_removes (run sch k) = []"
  then show "s_isShuttingDown (run sch k)"
    and "set (s_outstandingMessages (run sch k)) \<subseteq> set (s_outstandingMessages k)"
    by (simp_all add: run_flag_mono run_registry_shutdown)
next
  assume "pc (threads k t) = TSR_CheckAndInsert"
  then show "s_outstandingMessages (thread_step t k) =
          (if s_isShuttingDown k then s_outstandingMessages k else t # s_outstandingMessages k)"
    by (simp add: thread_step_registry)
next
  assume a: "pc (threads k t) = TSR_CheckAndInsert \<and> s_isShuttingDown k
      \<and> t \<notin> set (s_outstandingMessages k)"
  then show "t \<notin> set (s_outstandingMessages (thread_step t k))"
    by (simp add: thread_step_registry)
  from a have s: "shutdown_seen t k" by (simp add: shutdown_seen_def)
  assume "7 \<le> count_list sch (Thread t)"
  with a have "steps_to_return (pc (threads k t)) \<le> Suc (count_list sch (Thread t))" by simp
  with a undefined_path_run [OF s, of sch]
  show "pc (threads (run sch k) t) = Undefined_LIST_REMOVE"
    and "t \<in> set (unlinked_removes (run sch k))"
    and "kauthResult (threads (run sch k) t) = KAUTH_RESULT_DENY"
    by simp_all
qed

theorem C3_witness:
  "teardown (booted hydrate_event) = Abort_Entry
   \<and> s_isShuttingDown (exec Abort (booted hydrate_event))
   \<and> s_isShuttingDown (exec Abort asleep)
   \<and> unlinked_removes
        (run [Thread 0, Thread 0, Thread 0, Thread 0, Thread 0, Thread 0] (exec Abort asleep)) = []
   \<and> set (s_outstandingMessages
            (run [Thread 0, Thread 0, Thread 0, Thread 0, Thread 0, Thread 0] (exec Abort asleep)))
       \<subseteq> set (s_outstandingMessages (exec Abort asleep))
   \<and> pc (threads (run [Thread 0, Thread 0, Abort] (booted hydrate_event)) 0) = TSR_CheckAndInsert
   \<and> s_isShuttingDown (run [Thread 0, Thread 0, Abort] (booted hydrate_event))
   \<and> s_outstandingMessages (run [Thread 0, Thread 0, Abort] (booted hydrate_event)) = []
   \<and> s_outstandingMessages (run [Thread 0, Thread 0, Abort, Thread 0] (booted hydrate_event)) = []
   \<and> pc (threads
         (run [Thread 0, Thread 0, Thread 0, Thread 0, Thread 0, Thread 0, Thread 0]
           (run [Thread 0, Thread 0, Abort] (booted hydrate_event))) 0) = Undefined_LIST_REMOVE
   \<and> 0 \<in> set (unlinked_removes
         (run [Thread 0, Thread 0, Thread 0, Thread 0, Thread 0, Thread 0, Thread 0]
           (run [Thread 0, Thread 0, Abort] (booted hydrate_event))))
   \<and> kauthResult (threads
         (run [Thread 0, Thread 0, Thread 0, Thread 0, Thread 0, Thread 0, Thread 0]
           (run [Thread 0, Thread 0, Abort] (booted hydrate_event))) 0) = KAUTH_RESULT_DENY"
proof -
  let ?k = "run [Thread 0, Thread 0, Abort] (booted hydrate_event)"
  let ?sch = "[Thread 0, Thread 0, Thread 0, Thread 0, Thread 0, Thread 0, Thread 0]"
  let ?kB = "exec Abort asleep"
  let ?schB = "[Thread 0, Thread 0, Thread 0, Thread 0, Thread 0, Thread 0]"
  have t: "teardown (booted hydrate_event) = Abort_Entry" by (simp add: booted_def)
  have p: "pc (threads ?k 0) = TSR_CheckAndInsert" by (simp add: eval_defs)
  have f: "s_isShuttingDown ?k" by (simp add: eval_defs)
  have n: "s_outstandingMessages ?k = []" by (simp add: eval_defs)
  have e: "s_outstandingMessages (run [Thread 0, Thread 0, Abort, Thread 0] (booted hydrate_event))
           = s_outstandingMessages (thread_step 0 ?k)"
    by simp
  have c: "(7::nat) \<le> count_list ?sch (Thread 0)" by simp
  have fB: "s_isShuttingDown ?kB" by (simp add: asleep_def eval_defs)
  have uB: "unlinked_removes (run ?schB ?kB) = []" by (simp add: asleep_def eval_defs)
  note 1 = C3_round_trip_that_sees_shutdown_reaches_undefined_removal
             [of "booted hydrate_event" ?sch 0, THEN conjunct1, THEN mp, OF t, THEN conjunct1]
  note 2 = C3_round_trip_that_sees_shutdown_reaches_undefined_removal
             [of ?kB ?schB 0, THEN conjunct2, THEN conjunct1, THEN mp, OF conjI [OF fB uB],
              THEN conjunct2]
  note 3 = C3_round_trip_that_sees_shutdown_reaches_undefined_removal
             [of ?k ?sch 0, THEN conjunct2, THEN conjunct2, THEN conjunct1, THEN mp, OF p]
  have m: "pc (threads ?k 0) = TSR_CheckAndInsert \<and> s_isShuttingDown ?k
      \<and> 0 \<notin> set (s_outstandingMessages ?k)"
    using p f n by simp
  note 4 = C3_round_trip_that_sees_shutdown_reaches_undefined_removal
             [of ?k ?sch 0, THEN conjunct2, THEN conjunct2, THEN conjunct2, THEN mp, OF m,
              THEN conjunct2, THEN mp, OF c]
  have 5: "s_outstandingMessages (run [Thread 0, Thread 0, Abort, Thread 0] (booted hydrate_event)) = []"
    unfolding e 3 using f n by simp
  show ?thesis
    by (intro conjI; (rule t 1 fB uB 2 p f n 5 4 [THEN conjunct1] 4 [THEN conjunct2, THEN conjunct1]
          4 [THEN conjunct2, THEN conjunct2]))
qed

subsection \<open>A send that fails\<close>

text \<open>
  Claim C8. In a well-formed state, a round trip whose record was inserted (shutdown was
  not seen at the check) and whose send fails goes straight to its cleanup without
  entering the loop, with \<^verbatim>\<open>KAUTH_RESULT_DEFER\<close>, which is not \<^verbatim>\<open>KAUTH_RESULT_DENY\<close>; the
  result stays, the cleanup takes the record out of the list, and the call has returned
  after two more of its own steps, whatever is interleaved.
\<close>

theorem C8_send_failure_defers_and_unlinks:
  assumes "registry_ok k"
    and "pc (threads k t) = TSR_SendMessage"
    and "\<not> isShuttingDown (threads k t)"
    and "sendResult (event (threads k t)) \<noteq> 0"
  shows "t \<in> set (s_outstandingMessages k)
       \<and> pc (threads (thread_step t k) t) = TSR_CleanupAndReturn
       \<and> kauthResult (threads (run sch (thread_step t k)) t) = KAUTH_RESULT_DEFER
       \<and> settled (pc (threads (run sch (thread_step t k)) t))
       \<and> (pc (threads (run sch (thread_step t k)) t) \<noteq> TSR_CleanupAndReturn \<longrightarrow>
            t \<notin> set (s_outstandingMessages (run sch (thread_step t k))))
       \<and> (2 \<le> count_list sch (Thread t) \<longrightarrow>
            pc (threads (run sch (thread_step t k)) t) = Returned
            \<and> t \<notin> set (s_outstandingMessages (run sch (thread_step t k))))
       \<and> KAUTH_RESULT_DEFER \<noteq> KAUTH_RESULT_DENY"
proof -
  let ?k = "thread_step t k"
  let ?k' = "run sch ?k"
  have m: "t \<in> set (s_outstandingMessages k)"
    using assms(1,2,3) by (simp add: registry_ok_def)
  have p: "pc (threads ?k t) = TSR_CleanupAndReturn"
    and r: "kauthResult (threads ?k t) = KAUTH_RESULT_DEFER"
    using assms(2,3,4) by (simp_all add: step_defs Let_def)
  from p have s: "settled (pc (threads ?k t))" by simp
  then have dc: "decided (pc (threads ?k t))" using p by simp
  have lk: "linked_until_cleanup t ?k"
    using m assms(2) by (simp add: linked_until_cleanup_def thread_step_registry)
  have ok: "registry_ok ?k'"
    using assms(1) registry_ok_exec [of k "Thread t"] by (simp add: registry_ok_run)
  have s': "settled (pc (threads ?k' t))"
    using s lk by (rule settled_run)
  have r': "kauthResult (threads ?k' t) = KAUTH_RESULT_DEFER"
    using decided_run [OF dc, of sch] r by simp
  have u: "t \<notin> set (s_outstandingMessages ?k')" if "pc (threads ?k' t) \<noteq> TSR_CleanupAndReturn"
  proof -
    from s' that have "\<not> in_wait_window (pc (threads ?k' t))"
      by (cases "pc (threads ?k' t)") simp_all
    with ok show ?thesis by (simp add: registry_ok_def)
  qed
  have d: "pc (threads ?k' t) = Returned" if "2 \<le> count_list sch (Thread t)"
    using s p lk that by (intro returns_in_steps) simp_all
  show ?thesis using m p r' s' u d by (simp add: kauth_results)
qed

theorem C8_witness:
  "pc (threads (run [Thread 0, Thread 0, Thread 0] (booted (hydrate_event\<lparr>sendResult := 5\<rparr>))) 0)
     = TSR_SendMessage
   \<and> s_outstandingMessages (run [Thread 0, Thread 0, Thread 0] (booted (hydrate_event\<lparr>sendResult := 5\<rparr>)))
     = [0]
   \<and> pc (threads (run [Thread 0, Thread 0, Thread 0, Thread 0] (booted (hydrate_event\<lparr>sendResult := 5\<rparr>))) 0)
     = TSR_CleanupAndReturn
   \<and> pc (threads (run [Thread 0, Thread 0, Thread 0, Thread 0, Thread 0, Thread 0]
                    (booted (hydrate_event\<lparr>sendResult := 5\<rparr>))) 0) = Returned
   \<and> kauthResult (threads (run [Thread 0, Thread 0, Thread 0, Thread 0, Thread 0, Thread 0]
                    (booted (hydrate_event\<lparr>sendResult := 5\<rparr>))) 0) = KAUTH_RESULT_DEFER
   \<and> 0 \<notin> set (s_outstandingMessages (run [Thread 0, Thread 0, Thread 0, Thread 0, Thread 0, Thread 0]
                    (booted (hydrate_event\<lparr>sendResult := 5\<rparr>))))"
proof -
  let ?ev = "hydrate_event\<lparr>sendResult := 5\<rparr>"
  let ?k = "run [Thread 0, Thread 0, Thread 0] (booted ?ev)"
  have g: "HandleVnodeOperation_gate ?ev = ([], RoundTrip online_root MessageType_KtoU_HydrateFile)"
    by (simp add: hydrate_event_def HandleVnodeOperation_gate_def HandleVnodeOperation_online_def
        sample_defs helper_defs flag_bits kauth_bits)
  have ok: "registry_ok ?k" by (intro registry_ok_run registry_ok_booted)
  have th: "threads ?k 0 =
      (entering ?ev)\<lparr>kauthResult := KAUTH_RESULT_DEFER, root := online_root,
        msgType := MessageType_KtoU_HydrateFile,
        messageSpec := Message_Init 1 MessageType_KtoU_HydrateFile 7 ''cat'' ''a.txt'',
        isShuttingDown := False, pc := TSR_SendMessage\<rparr>"
    by (simp add: g hydrate_fields booted_def entering_def stack_garbage_def Message_Init_def
        online_root_def step_defs GetRelativePath_def Let_def)
  have p: "pc (threads ?k 0) = TSR_SendMessage" unfolding th by simp
  have i: "\<not> isShuttingDown (threads ?k 0)" unfolding th by simp
  have f: "sendResult (event (threads ?k 0)) \<noteq> 0" unfolding th by (simp add: entering_def)
  have l: "s_outstandingMessages ?k = [0]"
    by (simp add: g hydrate_fields booted_def entering_def stack_garbage_def Message_Init_def
        online_root_def step_defs GetRelativePath_def Let_def)
  have e4: "run [Thread 0, Thread 0, Thread 0, Thread 0] (booted ?ev) = thread_step 0 ?k" by simp
  have e6: "run [Thread 0, Thread 0, Thread 0, Thread 0, Thread 0, Thread 0] (booted ?ev)
            = run [Thread 0, Thread 0] (thread_step 0 ?k)" by simp
  have c: "(2::nat) \<le> count_list [Thread 0, Thread 0] (Thread 0)" by simp
  from C8_send_failure_defers_and_unlinks [OF ok p i f, of "[Thread 0, Thread 0]"] c l p
  show ?thesis unfolding e4 e6 by simp
qed

subsection \<open>Delivering a response\<close>

text \<open>The scan of the list finds the one record with the id, or none.\<close>

lemma find_unique:
  assumes "a \<in> set xs" and "P a" and "\<forall>b\<in>set xs. P b \<longrightarrow> b = a"
  shows "find P xs = Some a"
  using assms
proof (induction xs)
  case Nil
  then show ?case by simp
next
  case (Cons x xs)
  show ?case
  proof (cases "P x")
    case True
    with Cons.prems(3) have "x = a" by simp
    with True show ?thesis by simp
  next
    case False
    with Cons.prems(1,2) have "a \<in> set xs" by auto
    moreover from Cons.prems(3) have "\<forall>b\<in>set xs. P b \<longrightarrow> b = a" by simp
    ultimately have "find P xs = Some a" using Cons.prems(2) by (intro Cons.IH)
    with False show ?thesis by simp
  qed
qed

lemma find_none: "\<forall>b\<in>set xs. \<not> P b \<Longrightarrow> find P xs = None"
  by (simp add: find_None_iff)

text \<open>The state in which thread 0 sleeps.\<close>

lemma asleep_state:
  "s_outstandingMessages asleep = [0]"
  "messageId (request (message asleep 0)) = 1"
  "\<not> receivedResponse (message asleep 0)"
  "\<not> s_isShuttingDown asleep"
  "pc (threads asleep 0) = TSR_Sleep"
  "wakeups asleep = []"
  by (simp_all add: asleep_def eval_defs)

text \<open>
  Claim C7. In every state, a response (a success or a failure) whose id is that of exactly
  one linked record stores the response type in that record, sets its
  \<^verbatim>\<open>receivedResponse\<close>, and calls \<^verbatim>\<open>wakeup\<close> on that record; the request in it, every other
  record, the list and all else stay as they were. A response whose id is that of no
  linked record, such as a second one after the record was removed, changes nothing.
\<close>

theorem C7_response_delivery:
  "(responseType \<in> {MessageType_Response_Success, MessageType_Response_Fail}
      \<and> a \<in> set (s_outstandingMessages k)
      \<and> messageId (request (message k a)) = mid
      \<and> (\<forall>b\<in>set (s_outstandingMessages k). messageId (request (message k b)) = mid \<longrightarrow> b = a)
      \<longrightarrow>
        KauthHandler_HandleKernelMessageResponse mid responseType k =
          k\<lparr>message :=
              (message k)(a := (message k a)\<lparr>response := responseType, receivedResponse := True\<rparr>),
            wakeups := wakeups k @ [a]\<rparr>
      \<and> response (message (KauthHandler_HandleKernelMessageResponse mid responseType k) a)
          = responseType
      \<and> receivedResponse (message (KauthHandler_HandleKernelMessageResponse mid responseType k) a)
      \<and> request (message (KauthHandler_HandleKernelMessageResponse mid responseType k) a)
          = request (message k a)
      \<and> wakeups (KauthHandler_HandleKernelMessageResponse mid responseType k) = wakeups k @ [a]
      \<and> (\<forall>b. b \<noteq> a \<longrightarrow>
            message (KauthHandler_HandleKernelMessageResponse mid responseType k) b = message k b)
      \<and> s_outstandingMessages (KauthHandler_HandleKernelMessageResponse mid responseType k)
          = s_outstandingMessages k)
   \<and> ((\<forall>b\<in>set (s_outstandingMessages k). messageId (request (message k b)) \<noteq> mid) \<longrightarrow>
        KauthHandler_HandleKernelMessageResponse mid responseType k = k)"
proof (intro conjI impI)
  assume n: "\<forall>b\<in>set (s_outstandingMessages k). messageId (request (message k b)) \<noteq> mid"
  have "find (\<lambda>a. messageId (request (message k a)) = mid) (s_outstandingMessages k) = None"
    using n by (intro find_none) simp
  then show "KauthHandler_HandleKernelMessageResponse mid responseType k = k"
    by (simp add: KauthHandler_HandleKernelMessageResponse_def)
next
  assume h: "responseType \<in> {MessageType_Response_Success, MessageType_Response_Fail}
      \<and> a \<in> set (s_outstandingMessages k)
      \<and> messageId (request (message k a)) = mid
      \<and> (\<forall>b\<in>set (s_outstandingMessages k). messageId (request (message k b)) = mid \<longrightarrow> b = a)"
  have f: "find (\<lambda>a. messageId (request (message k a)) = mid) (s_outstandingMessages k) = Some a"
    using h by (intro find_unique) simp_all
  show e: "KauthHandler_HandleKernelMessageResponse mid responseType k =
          k\<lparr>message :=
              (message k)(a := (message k a)\<lparr>response := responseType, receivedResponse := True\<rparr>),
            wakeups := wakeups k @ [a]\<rparr>"
  proof -
    from h have "responseType = MessageType_Response_Success
        \<or> responseType = MessageType_Response_Fail" by simp
    then show ?thesis by (simp add: KauthHandler_HandleKernelMessageResponse_def f)
  qed
  show "response (message (KauthHandler_HandleKernelMessageResponse mid responseType k) a)
          = responseType"
    and "receivedResponse (message (KauthHandler_HandleKernelMessageResponse mid responseType k) a)"
    and "request (message (KauthHandler_HandleKernelMessageResponse mid responseType k) a)
          = request (message k a)"
    and "wakeups (KauthHandler_HandleKernelMessageResponse mid responseType k) = wakeups k @ [a]"
    and "\<forall>b. b \<noteq> a \<longrightarrow>
            message (KauthHandler_HandleKernelMessageResponse mid responseType k) b = message k b"
    and "s_outstandingMessages (KauthHandler_HandleKernelMessageResponse mid responseType k)
          = s_outstandingMessages k"
    unfolding e by simp_all
qed

theorem C7_witness:
  "s_outstandingMessages asleep = [0]
   \<and> messageId (request (message asleep 0)) = 1
   \<and> response (message (KauthHandler_HandleKernelMessageResponse 1 MessageType_Response_Success asleep) 0)
       = MessageType_Response_Success
   \<and> receivedResponse (message (KauthHandler_HandleKernelMessageResponse 1 MessageType_Response_Success asleep) 0)
   \<and> wakeups (KauthHandler_HandleKernelMessageResponse 1 MessageType_Response_Success asleep) = [0]
   \<and> message (KauthHandler_HandleKernelMessageResponse 1 MessageType_Response_Success asleep) 1
       = message asleep 1
   \<and> KauthHandler_HandleKernelMessageResponse 2 MessageType_Response_Success asleep = asleep
   \<and> s_outstandingMessages
        (run [Response 1 MessageType_Response_Success, Thread 0, Thread 0, Thread 0, Thread 0,
              Thread 0, Thread 0] asleep) = []
   \<and> kauthResult (threads
        (run [Response 1 MessageType_Response_Success, Thread 0, Thread 0, Thread 0, Thread 0,
              Thread 0, Thread 0] asleep) 0) = KAUTH_RESULT_DEFER
   \<and> KauthHandler_HandleKernelMessageResponse 1 MessageType_Response_Fail
        (run [Response 1 MessageType_Response_Success, Thread 0, Thread 0, Thread 0, Thread 0,
              Thread 0, Thread 0] asleep)
       = run [Response 1 MessageType_Response_Success, Thread 0, Thread 0, Thread 0, Thread 0,
              Thread 0, Thread 0] asleep"
proof -
  let ?k = "run [Response 1 MessageType_Response_Success, Thread 0, Thread 0, Thread 0, Thread 0,
              Thread 0, Thread 0] asleep"
  have r: "s_outstandingMessages ?k = []" by (simp add: asleep_def eval_defs)
  have v: "kauthResult (threads ?k 0) = KAUTH_RESULT_DEFER" by (simp add: asleep_def eval_defs)
  have h1: "MessageType_Response_Success \<in> {MessageType_Response_Success, MessageType_Response_Fail}
      \<and> 0 \<in> set (s_outstandingMessages asleep)
      \<and> messageId (request (message asleep 0)) = 1
      \<and> (\<forall>b\<in>set (s_outstandingMessages asleep).
            messageId (request (message asleep b)) = 1 \<longrightarrow> b = 0)"
    by (simp add: asleep_state)
  have h2: "\<forall>b\<in>set (s_outstandingMessages asleep). messageId (request (message asleep b)) \<noteq> 2"
    by (simp add: asleep_state)
  have h3: "\<forall>b\<in>set (s_outstandingMessages ?k). messageId (request (message ?k b)) \<noteq> 1"
    unfolding r by simp
  note d = C7_response_delivery [of MessageType_Response_Success 0 asleep 1, THEN conjunct1, THEN mp, OF h1]
  have 1: "response (message (KauthHandler_HandleKernelMessageResponse 1 MessageType_Response_Success asleep) 0)
       = MessageType_Response_Success"
    and 2: "receivedResponse (message (KauthHandler_HandleKernelMessageResponse 1 MessageType_Response_Success asleep) 0)"
    and 3: "wakeups (KauthHandler_HandleKernelMessageResponse 1 MessageType_Response_Success asleep) = [0]"
    and 4: "message (KauthHandler_HandleKernelMessageResponse 1 MessageType_Response_Success asleep) 1
       = message asleep 1"
    using d by (simp_all add: asleep_state)
  note 5 = C7_response_delivery [of MessageType_Response_Success 0 asleep 2, THEN conjunct2, THEN mp, OF h2]
  note 6 = C7_response_delivery [of MessageType_Response_Fail 0 ?k 1, THEN conjunct2, THEN mp, OF h3]
  show ?thesis
    by (intro conjI; (rule asleep_state 1 2 3 4 5 6 r v))
qed

text \<open>
  A blocked thread stays blocked over quiet steps: its own steps go round the loop, other
  threads write their own records only, and the shutdown flag is not set by them.
\<close>

lemma blocked_thread_step:
  assumes "blocked t k"
  shows "blocked t (thread_step t' k)"
proof (cases "t' = t")
  case True
  from assms show ?thesis unfolding True blocked_def
    by (elim conjE disjE) (simp_all add: step_defs)
next
  case False
  have "message (thread_step t' k) t = message k t"
    by (cases "pc (threads k t')")
       (simp_all add: step_defs Let_def False [symmetric] split: prod.splits gate.splits option.splits)
  with assms show ?thesis
    by (simp add: blocked_def thread_step_others [OF False] thread_step_flag)
qed

lemma ignored_response:
  "responseType \<noteq> MessageType_Response_Success \<Longrightarrow> responseType \<noteq> MessageType_Response_Fail \<Longrightarrow>
   KauthHandler_HandleKernelMessageResponse mid responseType k = k"
  by (simp add: KauthHandler_HandleKernelMessageResponse_def)

lemma blocked_exec: "blocked t k \<Longrightarrow> quiet a \<Longrightarrow> blocked t (exec a k)"
  by (cases a) (simp_all add: blocked_thread_step ignored_response)

lemma blocked_run: "blocked t k \<Longrightarrow> list_all quiet sch \<Longrightarrow> blocked t (run sch k)"
  by (induction sch arbitrary: k) (simp_all add: blocked_exec)

text \<open>
  Claim C10. A response whose type is neither a success nor a failure leaves the state as
  it is, whatever its id: no record is modified and no \<^verbatim>\<open>wakeup\<close> is called. A thread
  blocked in the loop stays blocked over every schedule of thread steps and such
  responses, that is until a success or a failure is delivered or the shutdown begins.
\<close>

theorem C10_other_response_types_have_no_effect:
  "(responseType \<noteq> MessageType_Response_Success \<and> responseType \<noteq> MessageType_Response_Fail \<longrightarrow>
      KauthHandler_HandleKernelMessageResponse mid responseType k = k)
   \<and> (blocked t k \<and> list_all quiet sch \<longrightarrow> blocked t (run sch k))"
  by (simp add: ignored_response blocked_run)

theorem C10_witness:
  "messageId (request (message asleep 0)) = 1
   \<and> 0 \<in> set (s_outstandingMessages asleep)
   \<and> blocked 0 asleep
   \<and> KauthHandler_HandleKernelMessageResponse 1 (MessageType_Other 7) asleep = asleep
   \<and> KauthHandler_HandleKernelMessageResponse 1 MessageType_KtoU_HydrateFile asleep = asleep
   \<and> blocked 0 (run [Response 1 (MessageType_Other 7), Thread 0, Thread 0, Thread 0,
                      Response 1 MessageType_KtoU_EnumerateDirectory, Thread 0, Thread 0] asleep)"
proof -
  have b: "blocked 0 asleep" by (simp add: blocked_def asleep_state)
  have q: "list_all quiet [Response 1 (MessageType_Other 7), Thread 0, Thread 0, Thread 0,
                      Response 1 MessageType_KtoU_EnumerateDirectory, Thread 0, Thread 0]"
    by simp
  have i: "messageId (request (message asleep 0)) = 1" by (simp add: asleep_state)
  have m: "0 \<in> set (s_outstandingMessages asleep)" by (simp add: asleep_state)
  have 1: "KauthHandler_HandleKernelMessageResponse 1 (MessageType_Other 7) asleep = asleep"
    using C10_other_response_types_have_no_effect [of "MessageType_Other 7" 1 asleep 0 "[]"]
    by simp
  have 2: "KauthHandler_HandleKernelMessageResponse 1 MessageType_KtoU_HydrateFile asleep = asleep"
    using C10_other_response_types_have_no_effect [of MessageType_KtoU_HydrateFile 1 asleep 0 "[]"]
    by simp
  have 3: "blocked 0 (run [Response 1 (MessageType_Other 7), Thread 0, Thread 0, Thread 0,
                      Response 1 MessageType_KtoU_EnumerateDirectory, Thread 0, Thread 0] asleep)"
    using C10_other_response_types_have_no_effect [of "MessageType_Other 7" 1 asleep 0
      "[Response 1 (MessageType_Other 7), Thread 0, Thread 0, Thread 0,
                      Response 1 MessageType_KtoU_EnumerateDirectory, Thread 0, Thread 0]"]
      b q by blast
  show ?thesis
    by (intro conjI; (rule i m b 1 2 3))
qed

subsection \<open>The cleanup of a record that was never linked\<close>

text \<open>
  In a well-formed state, the record of a thread at the cleanup of the round trip is linked
  exactly when the thread did not see the shutdown flag at its check.
\<close>

lemma cleanup_membership:
  assumes "registry_ok k" and "pc (threads k t) = TSR_CleanupAndReturn"
  shows "(t \<in> set (s_outstandingMessages k)) = (\<not> isShuttingDown (threads k t))"
  using assms by (simp add: registry_ok_def)

text \<open>
  Claim C4 does not hold of the code. Thread 0 enters the round trip, the shutdown sets the
  flag before the thread's check, the thread does not insert its record, leaves the loop
  and reaches the cleanup with \<^verbatim>\<open>KAUTH_RESULT_DENY\<close>: there its record is not in the list,
  and \<^verbatim>\<open>LIST_REMOVE\<close> runs on it all the same.
\<close>

theorem C4_unlinked_record_removed_after_early_shutdown:
  "pc (threads (run [Thread 0, Thread 0, Abort] (booted hydrate_event)) 0) = TSR_CheckAndInsert
   \<and> s_isShuttingDown (run [Thread 0, Thread 0, Abort] (booted hydrate_event))
   \<and> pc (threads (run [Thread 0, Thread 0, Abort, Thread 0, Thread 0, Thread 0, Thread 0, Thread 0]
                   (booted hydrate_event)) 0) = TSR_CleanupAndReturn
   \<and> 0 \<notin> set (s_outstandingMessages
                 (run [Thread 0, Thread 0, Abort, Thread 0, Thread 0, Thread 0, Thread 0, Thread 0]
                   (booted hydrate_event)))
   \<and> unlinked_removes
        (run [Thread 0, Thread 0, Abort, Thread 0, Thread 0, Thread 0, Thread 0, Thread 0]
           (booted hydrate_event)) = []
   \<and> unlinked_removes
        (run [Thread 0, Thread 0, Abort, Thread 0, Thread 0, Thread 0, Thread 0, Thread 0, Thread 0]
           (booted hydrate_event)) = [0]
   \<and> kauthResult (threads
        (run [Thread 0, Thread 0, Abort, Thread 0, Thread 0, Thread 0, Thread 0, Thread 0, Thread 0,
              Thread 0] (booted hydrate_event)) 0) = KAUTH_RESULT_DENY"
  by (simp add: eval_defs)

end
